theory Spec2Isabelle
  imports Complex_Main "HOL-Library.Sublist"
begin

section \<open>Values, errors and results\<close>

text \<open>
  A shallow embedding of the tag language of fasttemplate (template.go, expression.go,
  eval.go, errors.go and the function-call file).

  Go strings are byte strings: \<^typ>\<open>string\<close>.  A Go integer is an \<^typ>\<open>int\<close>, and \<open>int\<close> is
  the 64-bit type of amd64: the conversions that produce one (\<open>goInt\<close>, \<open>Atoi\<close>, \<open>wrapTo\<close>)
  stay in its range.  A \<open>float64\<close> is idealised as a \<^typ>\<open>real\<close> (rounding, infinities and NaN
  are not represented).  A value of type \<open>interface{}\<close> is a \<open>val\<close>: the constructor is the
  dynamic type the type switches of the source look at.
\<close>

datatype ikind = KInt | KInt8 | KInt16 | KInt32 | KInt64
               | KUint | KUint8 | KUint16 | KUint32 | KUint64

datatype fkind = KFloat32 | KFloat64

text \<open>
  The type of a bound function as far as the source inspects it: the two exact types it
  asserts (\<open>func(string) string\<close> and the legacy \<open>func(io.Writer, string) (int, error)\<close>),
  and for every other function type \<open>NumIn\<close> and \<open>IsVariadic\<close>.
\<close>

datatype functype = FStrToStr | FTagFunc | FOther nat bool

fun NumIn :: "functype \<Rightarrow> nat" where
  "NumIn FStrToStr = 1"
| "NumIn FTagFunc = 2"
| "NumIn (FOther k v) = k"

fun IsVariadic :: "functype \<Rightarrow> bool" where
  "IsVariadic (FOther k v) = v"
| "IsVariadic _ = False"

text \<open>
  Every \<open>fmt.Errorf\<close> and \<open>errors.New\<close> of the source is one constructor, carrying the
  values the message is formatted from.  \<open>DivisionByZero\<close> carries the message itself:
  the source has two (\<open>division by zero\<close>, \<open>modulo by zero\<close>).
\<close>

datatype error =
    VariableNotFound string
  | FunctionNotFound string
  | FunctionNotFoundTag string
  | NoFunctionsMap string
  | ErrorParsingFunctionCall string error
  | InvalidArgumentCount string
  | InvalidArgumentCountCall nat nat
  | NotAFunction string
  | InvalidFunctionCallFormat string
  | InvalidFunctionName string
  | MissingClosingParenthesis string
  | UnterminatedArgs string
  | MultipleDecimalPoints
  | UnclosedFunctionCall
  | UnterminatedString
  | UnexpectedCharacter char nat
  | MismatchedParentheses
  | NotEnoughOperands string
  | InvalidExpressionResult nat
  | NonNumericOperand string
  | DivisionByZero string
  | UnsupportedOperator string
  | NumberSyntax string
  | CallPanic string string
  | UserError string
  | UnresolvedTagNilMap string
  | InvalidFunctionCall string error
  | UnresolvedFunction string string
  | UnresolvedTag string
  | CannotConvert string
  | CannotFindEndTag string string string

datatype val =
    VNil
  | VInt ikind int
  | VFloat fkind real
  | VStr string
  | VBytes string
  | VBool bool
  | VFunc functype nat
  | VErr error
  | VOther string

text \<open>
  What a Go call can do: return a value, return an error, or panic.  A panic is not an
  error value: only \<open>recover\<close> stops it.
\<close>

datatype 'a res = Ok 'a | Err error | Panic string

section \<open>Library functions of Go\<close>

text \<open>
  Functions of the Go library whose tables are not part of the repository are taken as
  parameters: \<open>strconv.ParseFloat\<close>, the \<open>%v\<close> formatting of floats, functions and
  errors, and the \<open>unicode.IsLetter\<close>/\<open>unicode.IsDigit\<close> classification of names that
  are not plain ASCII.
\<close>

record golib =
  ParseFloat :: "string \<Rightarrow> real option"
  FormatV :: "val \<Rightarrow> string"
  UnicodeName :: "string \<Rightarrow> bool"

definition digitChar :: "nat \<Rightarrow> char" where
  "digitChar d = char_of (48 + d)"

fun showNat :: "nat \<Rightarrow> string" where
  "showNat n = (if n < 10 then [digitChar n] else showNat (n div 10) @ [digitChar (n mod 10)])"

declare showNat.simps [simp del]

definition showInt :: "int \<Rightarrow> string" where
  "showInt i = (if i < 0 then CHR ''-'' # showNat (nat (- i)) else showNat (nat i))"

text \<open>\<open>fmt.Sprintf("%v", v)\<close>.\<close>

fun Sprintv :: "'a golib_scheme \<Rightarrow> val \<Rightarrow> string" where
  "Sprintv L VNil = ''<nil>''"
| "Sprintv L (VInt k i) = showInt i"
| "Sprintv L (VStr s) = s"
| "Sprintv L (VBool b) = (if b then ''true'' else ''false'')"
| "Sprintv L (VOther s) = s"
| "Sprintv L v = FormatV L v"

text \<open>Comparison of Go strings: lexicographic on bytes.\<close>

fun strLess :: "string \<Rightarrow> string \<Rightarrow> bool" where
  "strLess [] [] = False"
| "strLess [] (y # ys) = True"
| "strLess (x # xs) [] = False"
| "strLess (x # xs) (y # ys) =
     ((of_char x :: nat) < of_char y \<or> (x = y \<and> strLess xs ys))"

section \<open>Coercions and operators (expression.go)\<close>

fun isNumeric :: "val \<Rightarrow> bool" where
  "isNumeric (VInt k i) = True"
| "isNumeric (VFloat k r) = True"
| "isNumeric _ = False"

fun toFloat64 :: "'a golib_scheme \<Rightarrow> val \<Rightarrow> real" where
  "toFloat64 L (VInt k i) = of_int i"
| "toFloat64 L (VFloat k r) = r"
| "toFloat64 L (VStr s) = (case ParseFloat L s of Some f \<Rightarrow> f | None \<Rightarrow> 0)"
| "toFloat64 L (VBool b) = (if b then 1 else 0)"
| "toFloat64 L _ = 0"

fun toString :: "'a golib_scheme \<Rightarrow> val \<Rightarrow> string" where
  "toString L (VStr s) = s"
| "toString L (VBytes b) = b"
| "toString L v = Sprintv L v"

fun toBool :: "'a golib_scheme \<Rightarrow> val \<Rightarrow> bool" where
  "toBool L (VBool b) = b"
| "toBool L (VInt k i) = (toFloat64 L (VInt k i) \<noteq> 0)"
| "toBool L (VFloat k r) = (toFloat64 L (VFloat k r) \<noteq> 0)"
| "toBool L (VStr s) = (s \<noteq> [] \<and> s \<noteq> ''0'' \<and> s \<noteq> ''false'')"
| "toBool L _ = False"

text \<open>
  The conversion \<open>int(f)\<close> of a \<open>float64\<close> to the 64-bit \<open>int\<close>: the value truncated toward
  zero when that is an \<open>int\<close>.  For any other value the language leaves the result to the
  implementation; the conversion instruction of amd64 then gives the smallest \<open>int\<close>,
  \<open>-2^63\<close>, whatever the sign of \<open>f\<close>, and that is what \<open>goInt\<close> returns.
\<close>

definition truncInt :: "real \<Rightarrow> int" where
  "truncInt x = (if 0 \<le> x then \<lfloor>x\<rfloor> else \<lceil>x\<rceil>)"

definition goInt :: "real \<Rightarrow> int" where
  "goInt x =
     (if - (2 ^ 63) \<le> truncInt x \<and> truncInt x < 2 ^ 63 then truncInt x else - (2 ^ 63))"

text \<open>
  The remainder \<open>a % b\<close> of Go integers for \<open>b \<noteq> 0\<close>: the quotient is truncated toward
  zero, so the sign is the dividend's.
\<close>

definition goRem :: "int \<Rightarrow> int \<Rightarrow> int" where
  "goRem a b = sgn a * (\<bar>a\<bar> mod \<bar>b\<bar>)"

text \<open>The loop of \<open>pow\<close>: \<open>for i := 0; i < int(b); i++ { result *= a }\<close>.\<close>

function powLoop :: "int \<Rightarrow> int \<Rightarrow> real \<Rightarrow> real \<Rightarrow> real" where
  "powLoop i n a result = (if i < n then powLoop (i + 1) n a (result * a) else result)"
  by pat_completeness auto
termination
  by (relation "measure (\<lambda>(i, n, a, result). nat (n - i))") auto

declare powLoop.simps [simp del]

definition pow :: "real \<Rightarrow> real \<Rightarrow> real" where
  "pow a b = powLoop 0 (goInt b) a 1"

text \<open>
  \<open>applyOperator\<close>.  The integer \<open>%\<close> of Go panics when its right operand is zero, which
  happens when \<open>b\<close> is not zero and \<open>int(b)\<close> is.
\<close>

definition applyOperator :: "'a golib_scheme \<Rightarrow> string \<Rightarrow> val \<Rightarrow> val \<Rightarrow> val res" where
  "applyOperator L op a b =
    (if op = ''+'' then
       (if isNumeric a \<and> isNumeric b
        then Ok (VFloat KFloat64 (toFloat64 L a + toFloat64 L b))
        else Ok (VStr (toString L a @ toString L b)))
     else if op = ''-'' then
       (if \<not> isNumeric a \<or> \<not> isNumeric b then Err (NonNumericOperand ''cannot subtract non-numeric values'')
        else Ok (VFloat KFloat64 (toFloat64 L a - toFloat64 L b)))
     else if op = ''*'' then
       (if \<not> isNumeric a \<or> \<not> isNumeric b then Err (NonNumericOperand ''cannot multiply non-numeric values'')
        else Ok (VFloat KFloat64 (toFloat64 L a * toFloat64 L b)))
     else if op = ''/'' then
       (if \<not> isNumeric a \<or> \<not> isNumeric b then Err (NonNumericOperand ''cannot divide non-numeric values'')
        else if toFloat64 L b = 0 then Err (DivisionByZero ''division by zero'')
        else Ok (VFloat KFloat64 (toFloat64 L a / toFloat64 L b)))
     else if op = ''%'' then
       (if \<not> isNumeric a \<or> \<not> isNumeric b
        then Err (NonNumericOperand ''cannot perform modulo on non-numeric values'')
        else if toFloat64 L b = 0 then Err (DivisionByZero ''modulo by zero'')
        else if goInt (toFloat64 L b) = 0 then Panic ''integer divide by zero''
        else Ok (VInt KInt (goRem (goInt (toFloat64 L a)) (goInt (toFloat64 L b)))))
     else if op = ''**'' then
       (if \<not> isNumeric a \<or> \<not> isNumeric b
        then Err (NonNumericOperand ''exponentiation requires numeric values'')
        else Ok (VFloat KFloat64 (pow (toFloat64 L a) (toFloat64 L b))))
     else if op = ''>'' then
       (if isNumeric a \<and> isNumeric b then Ok (VBool (toFloat64 L a > toFloat64 L b))
        else Ok (VBool (strLess (toString L b) (toString L a))))
     else if op = ''<'' then
       (if isNumeric a \<and> isNumeric b then Ok (VBool (toFloat64 L a < toFloat64 L b))
        else Ok (VBool (strLess (toString L a) (toString L b))))
     else if op = ''>='' then
       (if isNumeric a \<and> isNumeric b then Ok (VBool (toFloat64 L a \<ge> toFloat64 L b))
        else Ok (VBool (\<not> strLess (toString L a) (toString L b))))
     else if op = ''<='' then
       (if isNumeric a \<and> isNumeric b then Ok (VBool (toFloat64 L a \<le> toFloat64 L b))
        else Ok (VBool (\<not> strLess (toString L b) (toString L a))))
     else if op = ''=='' then
       (if isNumeric a \<and> isNumeric b then Ok (VBool (toFloat64 L a = toFloat64 L b))
        else Ok (VBool (toString L a = toString L b)))
     else if op = ''!='' then
       (if isNumeric a \<and> isNumeric b then Ok (VBool (toFloat64 L a \<noteq> toFloat64 L b))
        else Ok (VBool (toString L a \<noteq> toString L b)))
     else if op = [CHR 0x26, CHR 0x26] then Ok (VBool (toBool L a \<and> toBool L b))
     else if op = ''||'' then Ok (VBool (toBool L a \<or> toBool L b))
     else Err (UnsupportedOperator op))"

section \<open>Strings\<close>

text \<open>
  \<open>strings.TrimSpace\<close> removes the leading and trailing runes that \<open>unicode.IsSpace\<close>
  accepts: six ASCII characters and the UTF-8 encodings of U+0085, U+00A0, U+1680,
  U+2000 to U+200A, U+2028, U+2029, U+202F, U+205F and U+3000.
\<close>

definition asciiSpace :: "char \<Rightarrow> bool" where
  "asciiSpace c = (c = CHR 0x09 \<or> c = CHR 0x0A \<or> c = CHR 0x0B \<or> c = CHR 0x0C
     \<or> c = CHR 0x0D \<or> c = CHR 0x20)"

definition unicodeSpaces :: "string list" where
  "unicodeSpaces =
     [[CHR 0xC2, CHR 0x85], [CHR 0xC2, CHR 0xA0], [CHR 0xE1, CHR 0x9A, CHR 0x80],
      [CHR 0xE2, CHR 0x80, CHR 0x80], [CHR 0xE2, CHR 0x80, CHR 0x81],
      [CHR 0xE2, CHR 0x80, CHR 0x82], [CHR 0xE2, CHR 0x80, CHR 0x83],
      [CHR 0xE2, CHR 0x80, CHR 0x84], [CHR 0xE2, CHR 0x80, CHR 0x85],
      [CHR 0xE2, CHR 0x80, CHR 0x86], [CHR 0xE2, CHR 0x80, CHR 0x87],
      [CHR 0xE2, CHR 0x80, CHR 0x88], [CHR 0xE2, CHR 0x80, CHR 0x89],
      [CHR 0xE2, CHR 0x80, CHR 0x8A], [CHR 0xE2, CHR 0x80, CHR 0xA8],
      [CHR 0xE2, CHR 0x80, CHR 0xA9], [CHR 0xE2, CHR 0x80, CHR 0xAF],
      [CHR 0xE2, CHR 0x81, CHR 0x9F], [CHR 0xE3, CHR 0x80, CHR 0x80]]"

text \<open>The width in bytes of the space rune a string starts (ends) with, 0 if there is none.\<close>

definition leadingSpace :: "string \<Rightarrow> nat" where
  "leadingSpace s =
     (case s of [] \<Rightarrow> 0
      | c # cs \<Rightarrow> if asciiSpace c then 1
                 else (case filter (\<lambda>p. prefix p s) unicodeSpaces of [] \<Rightarrow> 0 | p # ps \<Rightarrow> length p))"

definition trailingSpace :: "string \<Rightarrow> nat" where
  "trailingSpace s =
     (if s = [] then 0
      else if asciiSpace (last s) then 1
      else (case filter (\<lambda>p. suffix p s) unicodeSpaces of [] \<Rightarrow> 0 | p # ps \<Rightarrow> length p))"

lemma filter_hd_holds: "filter P xs = p # ps \<Longrightarrow> P p"
  by (metis filter_eq_Cons_iff)

lemma leadingSpace_le: "leadingSpace s \<le> length s"
proof (cases s)
  case Nil
  then show ?thesis by (simp add: leadingSpace_def)
next
  case (Cons c cs)
  show ?thesis
  proof (cases "filter (\<lambda>p. prefix p s) unicodeSpaces")
    case Nil
    with Cons show ?thesis by (simp add: leadingSpace_def)
  next
    case (Cons p ps)
    then have "prefix p s" by (rule filter_hd_holds)
    then have "length p \<le> length s" by (rule prefix_length_le)
    with Cons \<open>s = c # cs\<close> show ?thesis by (simp add: leadingSpace_def)
  qed
qed

lemma trailingSpace_le: "trailingSpace s \<le> length s"
proof (cases "s = []")
  case True
  then show ?thesis by (simp add: trailingSpace_def)
next
  case False
  then have pos: "1 \<le> length s" by (cases s) simp_all
  show ?thesis
  proof (cases "filter (\<lambda>p. suffix p s) unicodeSpaces")
    case Nil
    with False pos show ?thesis by (simp add: trailingSpace_def)
  next
    case (Cons p ps)
    then have "suffix p s" by (rule filter_hd_holds)
    then have "length p \<le> length s" by (rule suffix_length_le)
    with Cons False pos show ?thesis by (simp add: trailingSpace_def)
  qed
qed

function trimLeft :: "string \<Rightarrow> string" where
  "trimLeft s = (if leadingSpace s = 0 then s else trimLeft (drop (leadingSpace s) s))"
  by pat_completeness auto
termination
proof (relation "measure length")
  fix s :: string
  assume "leadingSpace s \<noteq> 0"
  moreover have "leadingSpace s \<le> length s" by (rule leadingSpace_le)
  ultimately show "(drop (leadingSpace s) s, s) \<in> measure length" by simp
qed simp

function trimRight :: "string \<Rightarrow> string" where
  "trimRight s = (if trailingSpace s = 0 then s else trimRight (take (length s - trailingSpace s) s))"
  by pat_completeness auto
termination
proof (relation "measure length")
  fix s :: string
  assume "trailingSpace s \<noteq> 0"
  moreover have "trailingSpace s \<le> length s" by (rule trailingSpace_le)
  ultimately show "(take (length s - trailingSpace s) s, s) \<in> measure length" by simp
qed simp

declare trimLeft.simps [simp del] trimRight.simps [simp del]

definition TrimSpace :: "string \<Rightarrow> string" where
  "TrimSpace s = trimRight (trimLeft s)"

text \<open>\<open>strings.IndexByte\<close>: the index of the first occurrence, or \<open>-1\<close>.\<close>

fun IndexByte :: "string \<Rightarrow> char \<Rightarrow> int" where
  "IndexByte [] c = - 1"
| "IndexByte (x # xs) c =
     (if x = c then 0 else (let r = IndexByte xs c in if r < 0 then - 1 else r + 1))"

definition HasSuffix :: "string \<Rightarrow> string \<Rightarrow> bool" where
  "HasSuffix s suf = suffix suf s"

definition isDigit :: "char \<Rightarrow> bool" where
  "isDigit c = (48 \<le> (of_char c :: nat) \<and> (of_char c :: nat) \<le> 57)"

definition isLetter :: "char \<Rightarrow> bool" where
  "isLetter c = ((97 \<le> (of_char c :: nat) \<and> (of_char c :: nat) \<le> 122)
     \<or> (65 \<le> (of_char c :: nat) \<and> (of_char c :: nat) \<le> 90))"

section \<open>Classification of a tag\<close>

definition isFunctionCall :: "string \<Rightarrow> bool" where
  "isFunctionCall tag =
     (let tag = TrimSpace tag; parenIdx = IndexByte tag (CHR ''('')
      in parenIdx > 0 \<and> HasSuffix tag '')'')"

definition commonOps :: "char \<Rightarrow> bool" where
  "commonOps c = (c \<in> set ''+-*/=<>!&|%'')"

text \<open>
  The loop of \<open>isExpression\<close>.  \<open>prev\<close> is \<open>tag[i-1]\<close> (\<open>None\<close> when \<open>i = 0\<close>), the list is
  \<open>tag[i:]\<close>.
\<close>

fun isExpressionLoop :: "char option \<Rightarrow> bool \<Rightarrow> bool \<Rightarrow> string \<Rightarrow> bool" where
  "isExpressionLoop prev inSingleQuote inDoubleQuote [] = False"
| "isExpressionLoop prev inSingleQuote inDoubleQuote (c # cs) =
     (if c = CHR 0x27 \<and> prev \<noteq> Some (CHR 0x5C)
        then isExpressionLoop (Some c) (\<not> inSingleQuote) inDoubleQuote cs
      else if c = CHR 0x22 \<and> prev \<noteq> Some (CHR 0x5C)
        then isExpressionLoop (Some c) inSingleQuote (\<not> inDoubleQuote) cs
      else if inSingleQuote \<or> inDoubleQuote
        then isExpressionLoop (Some c) inSingleQuote inDoubleQuote cs
      else if commonOps c then True
      else if c \<in> set ''&|=!<>*'' \<and> cs \<noteq> [] \<and>
              ((c = CHR ''*'' \<and> hd cs = CHR ''*'')
               \<or> (c = CHR 0x26 \<and> hd cs = CHR 0x26) \<or> (c = CHR ''|'' \<and> hd cs = CHR ''|'')
               \<or> (c = CHR ''='' \<and> hd cs = CHR ''='') \<or> (c = CHR ''!'' \<and> hd cs = CHR ''='')
               \<or> (c = CHR ''>'' \<and> hd cs = CHR ''='') \<or> (c = CHR ''<'' \<and> hd cs = CHR ''=''))
        then True
      else isExpressionLoop (Some c) inSingleQuote inDoubleQuote cs)"

definition isExpression :: "string \<Rightarrow> bool" where
  "isExpression tag =
     (if isFunctionCall tag then False
      else isExpressionLoop None False False (TrimSpace tag))"

definition isLikelyVariable :: "string \<Rightarrow> bool" where
  "isLikelyVariable s =
     (if length s \<ge> 2 \<and> ((hd s = CHR 0x22 \<and> last s = CHR 0x22) \<or> (hd s = CHR 0x27 \<and> last s = CHR 0x27))
        then False
      else if length s > 0 \<and> isDigit (hd s) then False
      else if s = ''true'' \<or> s = ''false'' then False
      else if list_ex (\<lambda>c. c \<in> set [CHR 0x20, CHR 0x09, CHR 0x0A, CHR 0x0D, CHR ''+'', CHR ''-'',
                 CHR ''*'', CHR ''/'', CHR ''='', CHR ''<'', CHR ''>'', CHR ''!'', CHR 0x26,
                 CHR ''|'', CHR ''%'']) s
        then False
      else True)"

section \<open>Tokenizer (expression.go)\<close>

datatype ttype = tokenOperator | tokenNumber | tokenString | tokenIdentifier
               | tokenLeftParen | tokenRightParen | tokenFunctionCall

datatype token = Token (ttyp: ttype) (tvalue: string)

definition singleCharOps :: "char \<Rightarrow> bool" where
  "singleCharOps c = (c \<in> set ''+-*/%><=!'')"

definition multiCharOps :: "string \<Rightarrow> bool" where
  "multiCharOps s = (s \<in> set [''||'', [CHR 0x26, CHR 0x26], ''=='', ''!='', ''>='', ''<='', ''**''])"

definition isIdentStart :: "char \<Rightarrow> bool" where
  "isIdentStart c = (isLetter c \<or> c = CHR ''_'')"

definition isIdentChar :: "char \<Rightarrow> bool" where
  "isIdentChar c = (isLetter c \<or> isDigit c \<or> c = CHR ''_'')"

text \<open>
  The scanners take \<open>expr[i:]\<close> and return \<open>expr[i':]\<close> for the index \<open>i'\<close> the loop of
  the source stops at.

  \<open>skipQuoted\<close>: \<open>for i < len(expr) && expr[i] != quote\<close>, stepping over an escaped
  character.  The result starts at the closing quote, or is empty.
\<close>

fun skipQuoted :: "char \<Rightarrow> string \<Rightarrow> string" where
  "skipQuoted quote [] = []"
| "skipQuoted quote [c] = (if c = quote then [c] else [])"
| "skipQuoted quote (c # d # ds) =
     (if c = quote then c # d # ds
      else if c = CHR 0x5C then skipQuoted quote ds
      else skipQuoted quote (d # ds))"

lemma length_skipQuoted: "length (skipQuoted q s) \<le> length s"
  by (induction q s rule: skipQuoted.induct) auto

text \<open>The digits of a number, with at most one decimal point.\<close>

fun scanNumber :: "bool \<Rightarrow> string \<Rightarrow> error + string" where
  "scanNumber hasDot [] = Inr []"
| "scanNumber hasDot (c # cs) =
     (if isDigit c then scanNumber hasDot cs
      else if c = CHR ''.'' then (if hasDot then Inl MultipleDecimalPoints else scanNumber True cs)
      else Inr (c # cs))"

lemma length_scanNumber: "scanNumber h s = Inr r \<Longrightarrow> length r \<le> length s"
  by (induction h s rule: scanNumber.induct) (auto split: if_splits)

text \<open>
  The search for the parenthesis that closes a function call:
  \<open>for parenDepth > 0 && i < len(expr)\<close>.  The result is the depth and \<open>expr[i:]\<close> when the
  loop ends: at depth 0 the rest starts with the closing parenthesis.
\<close>

function scanCall :: "nat \<Rightarrow> string \<Rightarrow> nat \<times> string" where
  "scanCall parenDepth [] = (parenDepth, [])"
| "scanCall parenDepth (c # cs) =
     (if parenDepth = 0 then (parenDepth, c # cs)
      else if c = CHR ''('' then scanCall (parenDepth + 1) cs
      else if c = CHR '')'' then
        (if parenDepth - 1 > 0 then scanCall (parenDepth - 1) cs else (parenDepth - 1, c # cs))
      else if c = CHR 0x22 \<or> c = CHR 0x27 then
        (case skipQuoted c cs of [] \<Rightarrow> (parenDepth, []) | q # rest \<Rightarrow> scanCall parenDepth rest)
      else scanCall parenDepth cs)"
  by pat_completeness auto
termination
proof (relation "measure (\<lambda>(d, s). length s)")
  fix parenDepth :: nat and c :: char and cs x21 x22
  assume "skipQuoted c cs = x21 # x22"
  then have "length (x21 # x22) \<le> length cs" by (metis length_skipQuoted)
  then show "((parenDepth, x22), parenDepth, c # cs) \<in> measure (\<lambda>(d, s). length s)" by simp
qed simp_all

lemma length_scanCall: "scanCall d s = (d', r) \<Longrightarrow> length r \<le> length s"
proof (induction d s arbitrary: d' r rule: scanCall.induct)
  case (1 parenDepth)
  then show ?case by simp
next
  case (2 parenDepth c cs)
  show ?case
  proof (cases "skipQuoted c cs")
    case Nil
    with 2 show ?thesis by (auto split: if_splits)
  next
    case (Cons q rest)
    have "length (q # rest) \<le> length cs" by (metis Cons length_skipQuoted)
    with 2 Cons show ?thesis by (fastforce split: if_splits)
  qed
qed

lemma skipQuoted_Cons_length: "skipQuoted q s = x # r \<Longrightarrow> length r < Suc (length s)"
  using length_skipQuoted [of q s] by simp

lemma scanNumber_length_Suc: "scanNumber h s = Inr r \<Longrightarrow> length r < Suc (length s)"
  using length_scanNumber [of h s r] by simp

lemma dropWhile_length_Suc: "length (dropWhile P cs) < Suc (length cs)"
  by (simp add: less_Suc_eq_le length_dropWhile_le)

lemma scanCall_tl_length:
  assumes "(d', r) = scanCall d (tl (dropWhile P cs))"
  shows "length r - Suc 0 < Suc (length cs)"
proof -
  from assms have "length r \<le> length (tl (dropWhile P cs))" by (metis length_scanCall)
  also have "\<dots> \<le> length (dropWhile P cs)" by simp
  also have "\<dots> \<le> length cs" by (rule length_dropWhile_le)
  finally show ?thesis by simp
qed

text \<open>
  The main loop.  \<open>i\<close> is the index into \<open>expr\<close> (it is only used in an error message),
  the string is \<open>expr[i:]\<close>.
\<close>

function tokenizeLoop :: "nat \<Rightarrow> string \<Rightarrow> token list \<Rightarrow> error + token list" where
  "tokenizeLoop i [] tokens = Inr tokens"
| "tokenizeLoop i (c # cs) tokens =
     (if c = CHR 0x20 \<or> c = CHR 0x09 \<or> c = CHR 0x0A \<or> c = CHR 0x0D
        then tokenizeLoop (i + 1) cs tokens
      else if isDigit c then
        (case scanNumber False (c # cs) of
           Inr rest \<Rightarrow>
             (let n = length (c # cs) - length rest
              in tokenizeLoop (i + n) rest (tokens @ [Token tokenNumber (take n (c # cs))]))
         | Inl e \<Rightarrow> Inl e)
      else if isIdentStart c then
        (let rest = dropWhile isIdentChar cs in
         if rest \<noteq> [] \<and> hd rest = CHR ''('' then
           (case scanCall 1 (tl rest) of
              (parenDepth, r) \<Rightarrow>
                if parenDepth > 0 then Inl UnclosedFunctionCall
                else let n = length (c # cs) - length (tl r)
                     in tokenizeLoop (i + n) (tl r)
                          (tokens @ [Token tokenFunctionCall (take n (c # cs))]))
         else let n = length (c # cs) - length rest
              in tokenizeLoop (i + n) rest (tokens @ [Token tokenIdentifier (take n (c # cs))]))
      else if c = CHR 0x22 \<or> c = CHR 0x27 then
        (case skipQuoted c cs of
           [] \<Rightarrow> Inl UnterminatedString
         | q # rest \<Rightarrow>
             (let n = length (c # cs) - length rest
              in tokenizeLoop (i + n) rest (tokens @ [Token tokenString (take n (c # cs))])))
      else if c = CHR ''('' then tokenizeLoop (i + 1) cs (tokens @ [Token tokenLeftParen ''(''])
      else if c = CHR '')'' then tokenizeLoop (i + 1) cs (tokens @ [Token tokenRightParen '')''])
      else if cs \<noteq> [] \<and> multiCharOps [c, hd cs]
        then tokenizeLoop (i + 2) (tl cs) (tokens @ [Token tokenOperator [c, hd cs]])
      else if singleCharOps c then tokenizeLoop (i + 1) cs (tokens @ [Token tokenOperator [c]])
      else Inl (UnexpectedCharacter c i))"
  by pat_completeness auto
termination
  by (relation "measure (\<lambda>(i, s, tokens). length s)")
     (auto simp: dropWhile_length_Suc
           dest: skipQuoted_Cons_length scanNumber_length_Suc scanCall_tl_length)

declare tokenizeLoop.simps [simp del]

definition tokenize :: "string \<Rightarrow> error + token list" where
  "tokenize expr = tokenizeLoop 0 expr []"

section \<open>Infix to postfix (expression.go)\<close>

text \<open>The map \<open>operators\<close>; a key that is absent reads as 0.\<close>

definition operators :: "string \<Rightarrow> nat" where
  "operators op =
     (if op = ''||'' then 1
      else if op = [CHR 0x26, CHR 0x26] then 2
      else if op = ''=='' \<or> op = ''!='' then 3
      else if op = ''>'' \<or> op = ''>='' \<or> op = ''<'' \<or> op = ''<='' then 4
      else if op = ''+'' \<or> op = ''-'' then 5
      else if op = ''*'' \<or> op = ''/'' \<or> op = ''%'' then 6
      else if op = ''**'' then 7
      else 0)"

text \<open>
  A stack is a list whose head is the top, that is the last element of the slice of
  the source.  The three inner loops of \<open>toPostfix\<close> return the stack and the output.
\<close>

fun popToLeftParen :: "token list \<Rightarrow> token list \<Rightarrow> token list \<times> token list" where
  "popToLeftParen [] output = ([], output)"
| "popToLeftParen (t # stack) output =
     (if ttyp t \<noteq> tokenLeftParen then popToLeftParen stack (output @ [t])
      else (t # stack, output))"

fun popOperators :: "string \<Rightarrow> token list \<Rightarrow> token list \<Rightarrow> token list \<times> token list" where
  "popOperators v [] output = ([], output)"
| "popOperators v (t # stack) output =
     (if ttyp t = tokenOperator \<and> operators (tvalue t) \<ge> operators v
      then popOperators v stack (output @ [t])
      else (t # stack, output))"

fun popAll :: "token list \<Rightarrow> token list \<Rightarrow> error + token list" where
  "popAll [] output = Inr output"
| "popAll (t # stack) output =
     (if ttyp t = tokenLeftParen then Inl MismatchedParentheses
      else popAll stack (output @ [t]))"

fun toPostfixLoop :: "token list \<Rightarrow> token list \<Rightarrow> token list \<Rightarrow> error + token list" where
  "toPostfixLoop [] output stack = popAll stack output"
| "toPostfixLoop (t # infix) output stack =
     (case ttyp t of
        tokenNumber \<Rightarrow> toPostfixLoop infix (output @ [t]) stack
      | tokenString \<Rightarrow> toPostfixLoop infix (output @ [t]) stack
      | tokenIdentifier \<Rightarrow> toPostfixLoop infix (output @ [t]) stack
      | tokenFunctionCall \<Rightarrow> toPostfixLoop infix (output @ [t]) stack
      | tokenLeftParen \<Rightarrow> toPostfixLoop infix output (t # stack)
      | tokenRightParen \<Rightarrow>
          (case popToLeftParen stack output of
             (stack', output') \<Rightarrow>
               if stack' = [] then Inl MismatchedParentheses
               else toPostfixLoop infix output' (tl stack'))
      | tokenOperator \<Rightarrow>
          (case popOperators (tvalue t) stack output of
             (stack', output') \<Rightarrow> toPostfixLoop infix output' (t # stack')))"

declare toPostfixLoop.simps(2) [simp del]

definition toPostfix :: "token list \<Rightarrow> error + token list" where
  "toPostfix infix = toPostfixLoop infix [] []"

section \<open>Function calls: parsing\<close>

datatype arg =
    ALiteral string
  | AString string
  | AInt int
  | AFloat real
  | ABool bool
  | ACall functionCall
  | AExpr string
and functionCall = FunctionCall (Name: string) (Args: "arg list")

text \<open>
  \<open>isValidFunctionName\<close> ranges over the runes of the name.  For a name of ASCII
  characters the test is written out; for any other name it is \<open>UnicodeName\<close>.
\<close>

definition isValidFunctionName :: "'a golib_scheme \<Rightarrow> string \<Rightarrow> bool" where
  "isValidFunctionName L name =
     (if name = [] then False
      else if list_all (\<lambda>c. (of_char c :: nat) < 128) name
        then (isLetter (hd name) \<or> hd name = CHR ''_'')
             \<and> list_all (\<lambda>c. isLetter c \<or> isDigit c \<or> c = CHR ''_'') (tl name)
      else UnicodeName L name)"

text \<open>
  \<open>strconv.Atoi\<close>: an optional sign and decimal digits, in the range of a 64-bit \<open>int\<close>.
\<close>

definition digitsValue :: "string \<Rightarrow> nat" where
  "digitsValue ds = foldl (\<lambda>acc c. 10 * acc + (of_char c - 48)) 0 ds"

definition Atoi :: "string \<Rightarrow> int option" where
  "Atoi s =
     (let neg = (s \<noteq> [] \<and> hd s = CHR ''-'');
          ds = (if s \<noteq> [] \<and> (hd s = CHR ''-'' \<or> hd s = CHR ''+'') then tl s else s);
          v = (if neg then - int (digitsValue ds) else int (digitsValue ds))
      in if ds = [] \<or> \<not> list_all isDigit ds then None
         else if v < - (2 ^ 63) \<or> v > 2 ^ 63 - 1 then None
         else Some v)"

text \<open>
  \<open>utf8.DecodeRuneInString\<close> followed by \<open>WriteRune\<close>: a valid encoding is copied, any
  other byte becomes the three bytes of U+FFFD.  \<open>runeLen\<close> is the width of the valid
  encoding a string starts with, if any.
\<close>

definition inRange :: "char \<Rightarrow> nat \<Rightarrow> nat \<Rightarrow> bool" where
  "inRange c lo hi = (lo \<le> (of_char c :: nat) \<and> (of_char c :: nat) \<le> hi)"

fun runeLen :: "string \<Rightarrow> nat option" where
  "runeLen [] = None"
| "runeLen (c0 # cs) =
     (let b0 = (of_char c0 :: nat) in
      if b0 < 0x80 then Some 1
      else if 0xC2 \<le> b0 \<and> b0 \<le> 0xDF then
        (case cs of c1 # _ \<Rightarrow> if inRange c1 0x80 0xBF then Some 2 else None | _ \<Rightarrow> None)
      else if 0xE0 \<le> b0 \<and> b0 \<le> 0xEF then
        (case cs of
           c1 # c2 # _ \<Rightarrow>
             if inRange c1 (if b0 = 0xE0 then 0xA0 else 0x80) (if b0 = 0xED then 0x9F else 0xBF)
                \<and> inRange c2 0x80 0xBF
             then Some 3 else None
         | _ \<Rightarrow> None)
      else if 0xF0 \<le> b0 \<and> b0 \<le> 0xF4 then
        (case cs of
           c1 # c2 # c3 # _ \<Rightarrow>
             if inRange c1 (if b0 = 0xF0 then 0x90 else 0x80) (if b0 = 0xF4 then 0x8F else 0xBF)
                \<and> inRange c2 0x80 0xBF \<and> inRange c3 0x80 0xBF
             then Some 4 else None
         | _ \<Rightarrow> None)
      else None)"

lemma runeLen_pos: "runeLen s = Some n \<Longrightarrow> 0 < n"
  by (cases s) (auto simp: Let_def split: if_splits list.splits)

text \<open>The runes of a string, each as the bytes \<open>WriteRune\<close> writes for it.\<close>

function runes :: "string \<Rightarrow> string list" where
  "runes [] = []"
| "runes (c # cs) =
     (case runeLen (c # cs) of
        Some n \<Rightarrow> take n (c # cs) # runes (drop n (c # cs))
      | None \<Rightarrow> [CHR 0xEF, CHR 0xBF, CHR 0xBD] # runes cs)"
  by pat_completeness auto
termination
proof (relation "measure length")
  fix c :: char and cs :: string and n :: nat
  assume "runeLen (c # cs) = Some n"
  then have "0 < n" by (rule runeLen_pos)
  then show "(drop n (c # cs), c # cs) \<in> measure length" by simp
qed simp_all

declare runeLen.simps [simp del]

text \<open>
  The parser calls itself on a nested call, so it is defined with fuel: the number of
  nested calls it may still enter.  \<open>None\<close> means the fuel ran out; it is not a result
  of the source.  The tokenizer and the parsers return an error or a value
  (\<open>Inl\<close> the error): nothing in them panics.  \<open>parseArg\<close> and \<open>parseArgs\<close> take the parser for nested calls as \<open>pfc\<close>
  and \<open>pa\<close>.
\<close>

definition parseArg ::
  "'a golib_scheme \<Rightarrow> (string \<Rightarrow> (error + functionCall) option) \<Rightarrow> string \<Rightarrow> (error + arg) option" where
  "parseArg L pfc s =
     (if length s \<ge> 2 \<and> hd s = CHR 0x27 \<and> last s = CHR 0x27
        then Some (Inr (ALiteral (butlast (tl s))))
      else if length s \<ge> 2 \<and> hd s = CHR 0x22 \<and> last s = CHR 0x22
        then Some (Inr (ALiteral (butlast (tl s))))
      else if IndexByte s (CHR ''('') > 0 \<and> last s = CHR '')'' then
        (case pfc s of
           None \<Rightarrow> None
         | Some (Inr funcCall) \<Rightarrow> Some (Inr (ACall funcCall))
         | Some (Inl e) \<Rightarrow> Some (Inr (AString s)))
      else
        (case (if length s > 0 \<and> isDigit (hd s)
               then (case Atoi s of
                       Some i \<Rightarrow> Some (AInt i)
                     | None \<Rightarrow> (case ParseFloat L s of Some f \<Rightarrow> Some (AFloat f) | None \<Rightarrow> None))
               else None) of
           Some number \<Rightarrow> Some (Inr number)
         | None \<Rightarrow>
             if s = ''true'' then Some (Inr (ABool True))
             else if s = ''false'' then Some (Inr (ABool False))
             else if isExpression s then Some (Inr (AExpr s))
             else Some (Inr (AString s))))"

text \<open>
  The loop of \<open>parseArgs\<close> over the runes of the argument string.  It returns the
  variables the code after the loop reads.
\<close>

fun parseArgsLoop ::
  "(string \<Rightarrow> (error + arg) option) \<Rightarrow> string list \<Rightarrow> arg list \<Rightarrow> string \<Rightarrow> bool \<Rightarrow> bool \<Rightarrow> int \<Rightarrow> bool
     \<Rightarrow> (error + arg list \<times> string \<times> bool \<times> bool \<times> int) option" where
  "parseArgsLoop pa [] args currentArg inSingleQuote inDoubleQuote parenDepth escaped =
     Some (Inr (args, currentArg, inSingleQuote, inDoubleQuote, parenDepth))"
| "parseArgsLoop pa (r # rs) args currentArg inSingleQuote inDoubleQuote parenDepth escaped =
     (if escaped
        then parseArgsLoop pa rs args (currentArg @ r) inSingleQuote inDoubleQuote parenDepth False
      else if r = [CHR 0x5C] \<and> (inSingleQuote \<or> inDoubleQuote)
        then parseArgsLoop pa rs args (currentArg @ r) inSingleQuote inDoubleQuote parenDepth True
      else if r = [CHR 0x27] \<and> \<not> inDoubleQuote
        then parseArgsLoop pa rs args (currentArg @ r) (\<not> inSingleQuote) inDoubleQuote parenDepth False
      else if r = [CHR 0x22] \<and> \<not> inSingleQuote
        then parseArgsLoop pa rs args (currentArg @ r) inSingleQuote (\<not> inDoubleQuote) parenDepth False
      else if r = ''('' \<and> \<not> inSingleQuote \<and> \<not> inDoubleQuote
        then parseArgsLoop pa rs args (currentArg @ r) inSingleQuote inDoubleQuote (parenDepth + 1) False
      else if r = '')'' \<and> \<not> inSingleQuote \<and> \<not> inDoubleQuote
        then parseArgsLoop pa rs args (currentArg @ r) inSingleQuote inDoubleQuote (parenDepth - 1) False
      else if r = '','' \<and> \<not> inSingleQuote \<and> \<not> inDoubleQuote \<and> parenDepth = 0 then
        (let argStr = TrimSpace currentArg in
         if argStr \<noteq> [] then
           (case pa argStr of
              None \<Rightarrow> None
            | Some (Inr a) \<Rightarrow>
                parseArgsLoop pa rs (args @ [a]) [] inSingleQuote inDoubleQuote parenDepth False
            | Some (Inl e) \<Rightarrow> Some (Inl e))
         else parseArgsLoop pa rs args [] inSingleQuote inDoubleQuote parenDepth False)
      else parseArgsLoop pa rs args (currentArg @ r) inSingleQuote inDoubleQuote parenDepth False)"

declare parseArgsLoop.simps(2) [simp del]

definition parseArgs :: "(string \<Rightarrow> (error + arg) option) \<Rightarrow> string \<Rightarrow> (error + arg list) option" where
  "parseArgs pa s =
     (case parseArgsLoop pa (runes s) [] [] False False 0 False of
        None \<Rightarrow> None
      | Some (Inl e) \<Rightarrow> Some (Inl e)
      | Some (Inr (args, currentArg, inSingleQuote, inDoubleQuote, parenDepth)) \<Rightarrow>
          if inSingleQuote \<or> inDoubleQuote \<or> parenDepth \<noteq> 0 then Some (Inl (UnterminatedArgs s))
          else let argStr = TrimSpace currentArg in
            if argStr \<noteq> [] then
              (case pa argStr of
                 None \<Rightarrow> None
               | Some (Inr a) \<Rightarrow> Some (Inr (args @ [a]))
               | Some (Inl e) \<Rightarrow> Some (Inl e))
            else Some (Inr args))"

definition parseFunctionCallBody ::
  "'a golib_scheme \<Rightarrow> (string \<Rightarrow> (error + functionCall) option) \<Rightarrow> string \<Rightarrow> (error + functionCall) option" where
  "parseFunctionCallBody L pfc s0 =
     (let s = TrimSpace s0; parenIdx = IndexByte s (CHR ''('') in
      if parenIdx < 1 then Some (Inl (InvalidFunctionCallFormat s))
      else let name = TrimSpace (take (nat parenIdx) s) in
        if \<not> isValidFunctionName L name then Some (Inl (InvalidFunctionName name))
        else if \<not> HasSuffix s '')'' then Some (Inl (MissingClosingParenthesis s))
        else let argsStr = take (length s - 1 - (nat parenIdx + 1)) (drop (nat parenIdx + 1) s) in
          (case parseArgs (parseArg L pfc) argsStr of
             None \<Rightarrow> None
           | Some (Inl e) \<Rightarrow> Some (Inl e)
           | Some (Inr args) \<Rightarrow> Some (Inr (FunctionCall name args))))"

primrec parseFunctionCall :: "nat \<Rightarrow> 'a golib_scheme \<Rightarrow> string \<Rightarrow> (error + functionCall) option" where
  "parseFunctionCall 0 = (\<lambda>L s. None)"
| "parseFunctionCall (Suc n) = (\<lambda>L s. parseFunctionCallBody L (parseFunctionCall n L) s)"

declare parseFunctionCall.simps [simp del]

section \<open>State, bindings and bound functions\<close>

text \<open>
  A Go map is a reference: the caller's \<open>Map\<close> and the maps the engine makes live in a
  heap of maps, and a value of type \<open>Map\<close> is an address, or \<open>None\<close> for the nil map.
  The state also holds the process-wide \<open>exprCache\<close>, the bytes written to the writer
  (a buffer whose \<open>Write\<close> never fails), and \<open>world\<close>: whatever the bound functions of
  the caller read and change.
\<close>

record 'w state =
  world :: 'w
  heap :: "nat \<Rightarrow> (string \<rightharpoonup> val)"
  nextAddr :: nat
  exprCache :: "string \<rightharpoonup> token list"
  out :: string

definition lookup :: "('w, 'b) state_scheme \<Rightarrow> nat option \<Rightarrow> string \<Rightarrow> val option" where
  "lookup st m k = (case m of None \<Rightarrow> None | Some a \<Rightarrow> heap st a k)"

text \<open>
  What \<open>reflect.Value.Call\<close> on a bound function gives, as far as \<open>execute\<close> inspects it:
  a panic (of the callee, or of \<open>Call\<close> itself on arguments of the wrong type or
  number), no result, one result, or a first result and what the second one is.
\<close>

datatype second = IsNilPanics | NilSecond | ErrorSecond error | OtherSecond

datatype outcome = Panicked string | NoResult | OneResult val | Results val second

text \<open>
  A call of a legacy \<open>func(io.Writer, string) (int, error)\<close>: the bytes it writes and
  what it returns, or the bytes it writes before it panics.
\<close>

datatype tagoutcome = TagPanicked string string | TagReturned string int "error option"

record 'w env = golib +
  Call :: "nat \<Rightarrow> val list \<Rightarrow> 'w \<Rightarrow> outcome \<times> 'w"
  CallTag :: "nat \<Rightarrow> string \<Rightarrow> 'w \<Rightarrow> tagoutcome \<times> 'w"

type_synonym 'w exec =
  "nat option \<Rightarrow> nat option \<Rightarrow> functionCall \<Rightarrow> 'w state \<Rightarrow> (val res \<times> 'w state) option"

section \<open>Evaluation (expression.go and the function-call file)\<close>

text \<open>\<open>strings.ReplaceAll(s, "\\q", "q")\<close> for a quote character \<open>q\<close>.\<close>

fun unescape :: "char \<Rightarrow> string \<Rightarrow> string" where
  "unescape q (c # d # ds) =
     (if c = CHR 0x5C \<and> d = q then q # unescape q ds else c # unescape q (d # ds))"
| "unescape q s = s"

definition unquote :: "string \<Rightarrow> string" where
  "unquote s =
     (if length s \<ge> 2 then
        (let s = butlast (tl s) in
         if IndexByte s (CHR 0x5C) \<noteq> - 1 then unescape (CHR 0x27) (unescape (CHR 0x22) s) else s)
      else s)"

text \<open>
  The loop of \<open>evaluatePostfix\<close>.  \<open>pfc\<close> is \<open>parseFunctionCall\<close> and \<open>exec\<close> is
  \<open>functionCall.execute\<close>, both with the fuel that is left.  The stack has its top at the
  head.
\<close>

fun evaluatePostfixLoop ::
  "('w, 'a) env_scheme \<Rightarrow> (string \<Rightarrow> (error + functionCall) option) \<Rightarrow> 'w exec \<Rightarrow> nat option
     \<Rightarrow> token list \<Rightarrow> val list \<Rightarrow> 'w state \<Rightarrow> (val res \<times> 'w state) option" where
  "evaluatePostfixLoop E pfc exec data [] stack st =
     Some (if length stack \<noteq> 1 then Err (InvalidExpressionResult (length stack))
           else Ok (hd stack), st)"
| "evaluatePostfixLoop E pfc exec data (t # ts) stack st =
     (case ttyp t of
        tokenNumber \<Rightarrow>
          (if CHR ''.'' \<in> set (tvalue t) then
             (case ParseFloat E (tvalue t) of
                None \<Rightarrow> Some (Err (NumberSyntax (tvalue t)), st)
              | Some v \<Rightarrow> evaluatePostfixLoop E pfc exec data ts (VFloat KFloat64 v # stack) st)
           else
             (case Atoi (tvalue t) of
                None \<Rightarrow> Some (Err (NumberSyntax (tvalue t)), st)
              | Some v \<Rightarrow> evaluatePostfixLoop E pfc exec data ts (VInt KInt v # stack) st))
      | tokenString \<Rightarrow>
          evaluatePostfixLoop E pfc exec data ts (VStr (unquote (tvalue t)) # stack) st
      | tokenFunctionCall \<Rightarrow>
          (case pfc (tvalue t) of
             None \<Rightarrow> None
           | Some (Inl e) \<Rightarrow> Some (Err e, st)
           | Some (Inr funcCall) \<Rightarrow>
               (case exec data data funcCall st of
                  None \<Rightarrow> None
                | Some (Err e, st') \<Rightarrow> Some (Err e, st')
                | Some (Panic p, st') \<Rightarrow> Some (Panic p, st')
                | Some (Ok result, st') \<Rightarrow>
                    evaluatePostfixLoop E pfc exec data ts (result # stack) st'))
      | tokenIdentifier \<Rightarrow>
          (case lookup st data (tvalue t) of
             None \<Rightarrow>
               if isLikelyVariable (tvalue t) then Some (Err (VariableNotFound (tvalue t)), st)
               else evaluatePostfixLoop E pfc exec data ts (VStr (tvalue t) # stack) st
           | Some val \<Rightarrow>
               (case (val, stack) of
                  (VFunc FStrToStr f, VStr argVal # rest) \<Rightarrow>
                    (case Call E f [VStr argVal] (world st) of
                       (OneResult (VStr r), w') \<Rightarrow>
                         evaluatePostfixLoop E pfc exec data ts (VStr r # rest) (st\<lparr>world := w'\<rparr>)
                     | (Panicked p, w') \<Rightarrow> Some (Panic p, st\<lparr>world := w'\<rparr>)
                     | (_, w') \<Rightarrow> Some (Panic ''not a func(string) string'', st\<lparr>world := w'\<rparr>))
                | _ \<Rightarrow> evaluatePostfixLoop E pfc exec data ts (val # stack) st))
      | tokenOperator \<Rightarrow>
          (if length stack < 2 then Some (Err (NotEnoughOperands (tvalue t)), st)
           else
             (let b = hd stack; a = hd (tl stack) in
              case applyOperator E (tvalue t) a b of
                Ok result \<Rightarrow> evaluatePostfixLoop E pfc exec data ts (result # tl (tl stack)) st
              | Err e \<Rightarrow> Some (Err e, st)
              | Panic p \<Rightarrow> Some (Panic p, st)))
      | tokenLeftParen \<Rightarrow> evaluatePostfixLoop E pfc exec data ts stack st
      | tokenRightParen \<Rightarrow> evaluatePostfixLoop E pfc exec data ts stack st)"

declare evaluatePostfixLoop.simps(2) [simp del]

definition evaluatePostfixWith ::
  "('w, 'a) env_scheme \<Rightarrow> (string \<Rightarrow> (error + functionCall) option) \<Rightarrow> 'w exec \<Rightarrow> token list
     \<Rightarrow> nat option \<Rightarrow> 'w state \<Rightarrow> (val res \<times> 'w state) option" where
  "evaluatePostfixWith E pfc exec postfix data st = evaluatePostfixLoop E pfc exec data postfix [] st"

definition evalExpressionWith ::
  "('w, 'a) env_scheme \<Rightarrow> (string \<Rightarrow> (error + functionCall) option) \<Rightarrow> 'w exec \<Rightarrow> string
     \<Rightarrow> nat option \<Rightarrow> 'w state \<Rightarrow> (val res \<times> 'w state) option" where
  "evalExpressionWith E pfc exec expression data st =
     (if isFunctionCall expression then
        (case pfc expression of
           None \<Rightarrow> None
         | Some (Inl e) \<Rightarrow> Some (Err e, st)
         | Some (Inr funcCall) \<Rightarrow> exec data data funcCall st)
      else
        (case exprCache st expression of
           Some postfixTokens \<Rightarrow> evaluatePostfixWith E pfc exec postfixTokens data st
         | None \<Rightarrow>
             (case tokenize expression of
                Inl e \<Rightarrow> Some (Err e, st)
              | Inr tokens \<Rightarrow>
                  (case toPostfix tokens of
                     Inl e \<Rightarrow> Some (Err e, st)
                   | Inr postfixTokens \<Rightarrow>
                       evaluatePostfixWith E pfc exec postfixTokens data
                         (st\<lparr>exprCache := (exprCache st)(expression \<mapsto> postfixTokens)\<rparr>)))))"

text \<open>The loop of \<open>execute\<close> over \<open>fc.Args\<close>, building \<open>reflectArgs\<close>.\<close>

fun evalArgs ::
  "('w, 'a) env_scheme \<Rightarrow> (string \<Rightarrow> (error + functionCall) option) \<Rightarrow> 'w exec \<Rightarrow> nat option \<Rightarrow> nat option
     \<Rightarrow> arg list \<Rightarrow> val list \<Rightarrow> 'w state \<Rightarrow> (val list res \<times> 'w state) option" where
  "evalArgs E pfc exec funcs data [] reflectArgs st = Some (Ok reflectArgs, st)"
| "evalArgs E pfc exec funcs data (a # as) reflectArgs st =
     (case a of
        ALiteral typedArg \<Rightarrow> evalArgs E pfc exec funcs data as (reflectArgs @ [VStr typedArg]) st
      | AString typedArg \<Rightarrow>
          (if data \<noteq> None then
             (case lookup st data typedArg of
                Some val \<Rightarrow> evalArgs E pfc exec funcs data as (reflectArgs @ [val]) st
              | None \<Rightarrow>
                  if isLikelyVariable typedArg then Some (Err (VariableNotFound typedArg), st)
                  else evalArgs E pfc exec funcs data as (reflectArgs @ [VStr typedArg]) st)
           else evalArgs E pfc exec funcs data as (reflectArgs @ [VStr typedArg]) st)
      | AInt i \<Rightarrow> evalArgs E pfc exec funcs data as (reflectArgs @ [VInt KInt i]) st
      | AFloat f \<Rightarrow> evalArgs E pfc exec funcs data as (reflectArgs @ [VFloat KFloat64 f]) st
      | ABool b \<Rightarrow> evalArgs E pfc exec funcs data as (reflectArgs @ [VBool b]) st
      | ACall typedArg \<Rightarrow>
          (case exec funcs data typedArg st of
             None \<Rightarrow> None
           | Some (Err e, st') \<Rightarrow> Some (Err e, st')
           | Some (Panic p, st') \<Rightarrow> Some (Panic p, st')
           | Some (Ok result, st') \<Rightarrow> evalArgs E pfc exec funcs data as (reflectArgs @ [result]) st')
      | AExpr expression \<Rightarrow>
          (case evalExpressionWith E pfc exec expression data st of
             None \<Rightarrow> None
           | Some (Err e, st') \<Rightarrow> Some (Err e, st')
           | Some (Panic p, st') \<Rightarrow> Some (Panic p, st')
           | Some (Ok result, st') \<Rightarrow> evalArgs E pfc exec funcs data as (reflectArgs @ [result]) st'))"

declare evalArgs.simps(2) [simp del]

text \<open>
  \<open>functionCall.execute\<close>.  \<open>reflect.TypeOf\<close> of a nil value is nil, and \<open>Kind\<close> of it
  panics.  The deferred \<open>recover\<close> surrounds the call only: a panic of \<open>IsNil\<close> on the
  second result is not recovered.
\<close>

definition executeBody ::
  "('w, 'a) env_scheme \<Rightarrow> (string \<Rightarrow> (error + functionCall) option) \<Rightarrow> 'w exec \<Rightarrow> 'w exec" where
  "executeBody E pfc exec funcs data fc st =
     (case lookup st funcs (Name fc) of
        None \<Rightarrow> Some (Err (FunctionNotFound (Name fc)), st)
      | Some VNil \<Rightarrow> Some (Panic ''invalid memory address or nil pointer dereference'', st)
      | Some (VFunc fnType fn) \<Rightarrow>
          (case evalArgs E pfc exec funcs data (Args fc) [] st of
             None \<Rightarrow> None
           | Some (Err e, st') \<Rightarrow> Some (Err e, st')
           | Some (Panic p, st') \<Rightarrow> Some (Panic p, st')
           | Some (Ok reflectArgs, st') \<Rightarrow>
               if \<not> IsVariadic fnType \<and> length reflectArgs \<noteq> NumIn fnType
               then Some (Err (InvalidArgumentCountCall (NumIn fnType) (length reflectArgs)), st')
               else
                 (case Call E fn reflectArgs (world st') of
                    (Panicked r, w') \<Rightarrow> Some (Err (CallPanic (Name fc) r), st'\<lparr>world := w'\<rparr>)
                  | (NoResult, w') \<Rightarrow> Some (Ok VNil, st'\<lparr>world := w'\<rparr>)
                  | (OneResult v, w') \<Rightarrow> Some (Ok v, st'\<lparr>world := w'\<rparr>)
                  | (Results v IsNilPanics, w') \<Rightarrow>
                      Some (Panic ''reflect: call of reflect.Value.IsNil'', st'\<lparr>world := w'\<rparr>)
                  | (Results v (ErrorSecond e), w') \<Rightarrow> Some (Err e, st'\<lparr>world := w'\<rparr>)
                  | (Results v _, w') \<Rightarrow> Some (Ok v, st'\<lparr>world := w'\<rparr>)))
      | Some _ \<Rightarrow> Some (Err (NotAFunction (Name fc)), st))"

text \<open>
  The fuel of \<open>execute\<close> is the number of nested entries into \<open>execute\<close> and into the
  parser that are still allowed.
\<close>

primrec execute :: "nat \<Rightarrow> ('w, 'a) env_scheme \<Rightarrow> 'w exec" where
  "execute 0 = (\<lambda>E funcs data fc st. None)"
| "execute (Suc n) = (\<lambda>E funcs data fc st.
     executeBody E (parseFunctionCall n E) (execute n E) funcs data fc st)"

declare execute.simps [simp del]

definition evalExpression ::
  "nat \<Rightarrow> ('w, 'a) env_scheme \<Rightarrow> string \<Rightarrow> nat option \<Rightarrow> 'w state \<Rightarrow> (val res \<times> 'w state) option" where
  "evalExpression n E = evalExpressionWith E (parseFunctionCall n E) (execute n E)"

definition evaluatePostfix ::
  "nat \<Rightarrow> ('w, 'a) env_scheme \<Rightarrow> token list \<Rightarrow> nat option \<Rightarrow> 'w state \<Rightarrow> (val res \<times> 'w state) option" where
  "evaluatePostfix n E = evaluatePostfixWith E (parseFunctionCall n E) (execute n E)"

section \<open>Rendering one tag (template.go)\<close>

text \<open>What a function that returns \<open>(int, error)\<close> does: it returns, or it panics.\<close>

datatype ret = Ret int "error option" | RetPanic string

definition Write :: "string \<Rightarrow> 'w state \<Rightarrow> 'w state" where
  "Write bs st = st\<lparr>out := out st @ bs\<rparr>"

text \<open>
  The end of the function-call and expression branches: a nil result writes nothing,
  bytes and strings are written as they are, anything else through \<open>%v\<close>.
\<close>

definition writeResult :: "'a golib_scheme \<Rightarrow> val \<Rightarrow> 'w state \<Rightarrow> ret \<times> 'w state" where
  "writeResult L result st =
     (case result of
        VNil \<Rightarrow> (Ret 0 None, st)
      | VBytes v \<Rightarrow> (Ret (int (length v)) None, Write v st)
      | VStr v \<Rightarrow> (Ret (int (length v)) None, Write v st)
      | v \<Rightarrow> (Ret (int (length (Sprintv L v))) None, Write (Sprintv L v) st))"

text \<open>The end of the plain-tag branch, where the bound value is known to exist.\<close>

definition writeValue ::
  "('w, 'a) env_scheme \<Rightarrow> string \<Rightarrow> val \<Rightarrow> 'w state \<Rightarrow> ret \<times> 'w state" where
  "writeValue E tag v st =
     (case v of
        VNil \<Rightarrow> (Ret 0 None, st)
      | VBytes value \<Rightarrow> (Ret (int (length value)) None, Write value st)
      | VStr value \<Rightarrow> (Ret (int (length value)) None, Write value st)
      | VFunc FTagFunc value \<Rightarrow>
          (case CallTag E value tag (world st) of
             (TagReturned written n err, w') \<Rightarrow> (Ret n err, Write written (st\<lparr>world := w'\<rparr>))
           | (TagPanicked written p, w') \<Rightarrow> (RetPanic p, Write written (st\<lparr>world := w'\<rparr>)))
      | _ \<Rightarrow> (Ret (int (length (Sprintv E v))) None, Write (Sprintv E v) st))"

text \<open>The functions of a map: \<open>v != nil && reflect.TypeOf(v).Kind() == reflect.Func\<close>.\<close>

definition funcsOf :: "(string \<rightharpoonup> val) \<Rightarrow> (string \<rightharpoonup> val)" where
  "funcsOf m = (\<lambda>k. case m k of Some (VFunc t f) \<Rightarrow> Some (VFunc t f) | _ \<Rightarrow> None)"

text \<open>\<open>tempFuncs := Map{}\<close> and the loop that fills it: a new map in the heap.\<close>

definition newTempFuncs :: "nat \<Rightarrow> 'w state \<Rightarrow> nat \<times> 'w state" where
  "newTempFuncs m st =
     (nextAddr st,
      st\<lparr>heap := (heap st)(nextAddr st := funcsOf (heap st m)), nextAddr := Suc (nextAddr st)\<rparr>)"

definition isValidArgCount :: "functype \<Rightarrow> nat \<Rightarrow> bool" where
  "isValidArgCount fnType argCount =
     (if IsVariadic fnType then int argCount \<ge> int (NumIn fnType) - 1
      else NumIn fnType = argCount)"

definition processTag ::
  "nat \<Rightarrow> ('w, 'a) env_scheme \<Rightarrow> string \<Rightarrow> nat option \<Rightarrow> 'w state \<Rightarrow> (ret \<times> 'w state) option" where
  "processTag fuel E tag m st =
     (if isFunctionCall tag then
        (case parseFunctionCall fuel E tag of
           None \<Rightarrow> None
         | Some (Inl e) \<Rightarrow> Some (Ret 0 (Some (ErrorParsingFunctionCall tag e)), st)
         | Some (Inr funcCall) \<Rightarrow>
             (case m of
                None \<Rightarrow> Some (Ret 0 (Some (NoFunctionsMap tag)), st)
              | Some ma \<Rightarrow>
                  (case newTempFuncs ma st of
                     (tempFuncs, st1) \<Rightarrow>
                       (case heap st1 tempFuncs (Name funcCall) of
                          Some (VFunc fnType fn) \<Rightarrow>
                            if \<not> isValidArgCount fnType (length (Args funcCall))
                            then Some (Ret 0 (Some (InvalidArgumentCount (Name funcCall))), st1)
                            else
                              (case execute fuel E (Some tempFuncs) m funcCall st1 of
                                 None \<Rightarrow> None
                               | Some (Err e, st2) \<Rightarrow> Some (Ret 0 (Some e), st2)
                               | Some (Panic p, st2) \<Rightarrow> Some (RetPanic p, st2)
                               | Some (Ok result, st2) \<Rightarrow> Some (writeResult E result st2))
                        | _ \<Rightarrow> Some (Ret 0 (Some (FunctionNotFoundTag (Name funcCall))), st1)))))
      else if isExpression tag then
        (case evalExpression fuel E tag m st of
           None \<Rightarrow> None
         | Some (Err e, st') \<Rightarrow> Some (Ret 0 (Some e), st')
         | Some (Panic p, st') \<Rightarrow> Some (RetPanic p, st')
         | Some (Ok result, st') \<Rightarrow> Some (writeResult E result st'))
      else
        (case lookup st m tag of
           None \<Rightarrow> Some (Ret 0 (Some (VariableNotFound tag)), st)
         | Some v \<Rightarrow> Some (writeValue E tag v st)))"

text \<open>\<open>preserveTag\<close> and the count \<open>processTagStd\<close> returns after it.\<close>

definition preserveTag :: "string \<Rightarrow> string \<Rightarrow> string \<Rightarrow> 'w state \<Rightarrow> ret \<times> 'w state" where
  "preserveTag tag startTag endTag st =
     (Ret (int (length startTag) + int (length tag) + int (length endTag)) None,
      Write endTag (Write tag (Write startTag st)))"

definition processTagStd ::
  "nat \<Rightarrow> ('w, 'a) env_scheme \<Rightarrow> string \<Rightarrow> string \<Rightarrow> string \<Rightarrow> nat option \<Rightarrow> 'w state
     \<Rightarrow> (ret \<times> 'w state) option" where
  "processTagStd fuel E tag startTag endTag m st =
     (if isFunctionCall tag then
        (case parseFunctionCall fuel E tag of
           None \<Rightarrow> None
         | Some (Inl e) \<Rightarrow> Some (preserveTag tag startTag endTag st)
         | Some (Inr funcCall) \<Rightarrow>
             (case m of
                None \<Rightarrow> Some (preserveTag tag startTag endTag st)
              | Some ma \<Rightarrow>
                  (case newTempFuncs ma st of
                     (tempFuncs, st1) \<Rightarrow>
                       (case heap st1 tempFuncs (Name funcCall) of
                          Some (VFunc fnType fn) \<Rightarrow>
                            if \<not> isValidArgCount fnType (length (Args funcCall))
                            then Some (preserveTag tag startTag endTag st1)
                            else
                              (case execute fuel E (Some tempFuncs) m funcCall st1 of
                                 None \<Rightarrow> None
                               | Some (Err e, st2) \<Rightarrow> Some (preserveTag tag startTag endTag st2)
                               | Some (Panic p, st2) \<Rightarrow> Some (RetPanic p, st2)
                               | Some (Ok result, st2) \<Rightarrow> Some (writeResult E result st2))
                        | _ \<Rightarrow> Some (preserveTag tag startTag endTag st1)))))
      else if isExpression tag then
        (case evalExpression fuel E tag m st of
           None \<Rightarrow> None
         | Some (Err e, st') \<Rightarrow> Some (preserveTag tag startTag endTag st')
         | Some (Panic p, st') \<Rightarrow> Some (RetPanic p, st')
         | Some (Ok result, st') \<Rightarrow> Some (writeResult E result st'))
      else
        (case lookup st m tag of
           None \<Rightarrow> Some (preserveTag tag startTag endTag st)
         | Some v \<Rightarrow> Some (writeValue E tag v st)))"

section \<open>Templates (template.go)\<close>

record Template =
  template :: string
  startTag :: string
  endTag :: string
  texts :: "string list"
  tags :: "string list"

text \<open>\<open>errors.Is(err, errVariableNotFound)\<close>: the error, or one it wraps with \<open>%w\<close>.\<close>

fun isVariableNotFound :: "error \<Rightarrow> bool" where
  "isVariableNotFound (VariableNotFound name) = True"
| "isVariableNotFound (ErrorParsingFunctionCall tag e) = isVariableNotFound e"
| "isVariableNotFound (InvalidFunctionCall tag e) = isVariableNotFound e"
| "isVariableNotFound _ = False"

text \<open>
  The loop of \<open>Template.Execute\<close>: \<open>for i := 0; i < n; i++\<close>, with \<open>nn\<close> the bytes written
  so far.  An index outside \<open>t.tags\<close> panics.
\<close>

function TemplateExecuteLoop ::
  "nat \<Rightarrow> ('w, 'a) env_scheme \<Rightarrow> Template \<Rightarrow> nat option \<Rightarrow> nat \<Rightarrow> nat \<Rightarrow> int \<Rightarrow> 'w state
     \<Rightarrow> (ret \<times> 'w state) option" where
  "TemplateExecuteLoop fuel E t m i n nn st =
     (if i < n then
        (let st1 = Write (texts t ! i) st; nn1 = nn + int (length (texts t ! i)) in
         if i \<ge> length (tags t) then Some (RetPanic ''index out of range'', st1)
         else
           (case processTag fuel E (tags t ! i) m st1 of
              None \<Rightarrow> None
            | Some (RetPanic p, st2) \<Rightarrow> Some (RetPanic p, st2)
            | Some (Ret ni err, st2) \<Rightarrow>
                (case err of
                   Some e \<Rightarrow>
                     if isFunctionCall (tags t ! i) \<or> \<not> isVariableNotFound e
                     then Some (Ret (nn1 + ni) (Some e), st2)
                     else TemplateExecuteLoop fuel E t m (i + 1) n (nn1 + ni) st2
                 | None \<Rightarrow> TemplateExecuteLoop fuel E t m (i + 1) n (nn1 + ni) st2)))
      else Some (Ret (nn + int (length (texts t ! n))) None, Write (texts t ! n) st))"
  by pat_completeness auto
termination
  by (relation "measure (\<lambda>(fuel, E, t, m, i, n, nn, st). n - i)") auto

declare TemplateExecuteLoop.simps [simp del]

definition TemplateExecute ::
  "nat \<Rightarrow> ('w, 'a) env_scheme \<Rightarrow> Template \<Rightarrow> nat option \<Rightarrow> 'w state \<Rightarrow> (ret \<times> 'w state) option" where
  "TemplateExecute fuel E t m st =
     (if texts t = [] then Some (Ret (int (length (template t))) None, Write (template t) st)
      else TemplateExecuteLoop fuel E t m 0 (length (texts t) - 1) 0 st)"

function TemplateExecuteStdLoop ::
  "nat \<Rightarrow> ('w, 'a) env_scheme \<Rightarrow> Template \<Rightarrow> nat option \<Rightarrow> nat \<Rightarrow> nat \<Rightarrow> int \<Rightarrow> 'w state
     \<Rightarrow> (ret \<times> 'w state) option" where
  "TemplateExecuteStdLoop fuel E t m i n nn st =
     (if i < n then
        (let st1 = Write (texts t ! i) st; nn1 = nn + int (length (texts t ! i)) in
         if i \<ge> length (tags t) then Some (RetPanic ''index out of range'', st1)
         else
           (case processTagStd fuel E (tags t ! i) (startTag t) (endTag t) m st1 of
              None \<Rightarrow> None
            | Some (RetPanic p, st2) \<Rightarrow> Some (RetPanic p, st2)
            | Some (Ret ni err, st2) \<Rightarrow>
                (case err of
                   Some e \<Rightarrow> Some (Ret (nn1 + ni) (Some e), st2)
                 | None \<Rightarrow> TemplateExecuteStdLoop fuel E t m (i + 1) n (nn1 + ni) st2)))
      else Some (Ret (nn + int (length (texts t ! n))) None, Write (texts t ! n) st))"
  by pat_completeness auto
termination
  by (relation "measure (\<lambda>(fuel, E, t, m, i, n, nn, st). n - i)") auto

declare TemplateExecuteStdLoop.simps [simp del]

definition TemplateExecuteStd ::
  "nat \<Rightarrow> ('w, 'a) env_scheme \<Rightarrow> Template \<Rightarrow> nat option \<Rightarrow> 'w state \<Rightarrow> (ret \<times> 'w state) option" where
  "TemplateExecuteStd fuel E t m st =
     (if texts t = [] then Some (Ret (int (length (template t))) None, Write (template t) st)
      else TemplateExecuteStdLoop fuel E t m 0 (length (texts t) - 1) 0 st)"

text \<open>
  The string variants render into a buffer of their own and drop the error.  The result
  is the string, or the panic; the writer of the caller's state is left as it was.
\<close>

definition TemplateExecuteString ::
  "nat \<Rightarrow> ('w, 'a) env_scheme \<Rightarrow> Template \<Rightarrow> nat option \<Rightarrow> 'w state
     \<Rightarrow> (string res \<times> 'w state) option" where
  "TemplateExecuteString fuel E t m st =
     (case TemplateExecute fuel E t m (st\<lparr>out := []\<rparr>) of
        None \<Rightarrow> None
      | Some (RetPanic p, st') \<Rightarrow> Some (Panic p, st'\<lparr>out := out st\<rparr>)
      | Some (Ret nn err, st') \<Rightarrow> Some (Ok (out st'), st'\<lparr>out := out st\<rparr>))"

definition TemplateExecuteStringStd ::
  "nat \<Rightarrow> ('w, 'a) env_scheme \<Rightarrow> Template \<Rightarrow> nat option \<Rightarrow> 'w state
     \<Rightarrow> (string res \<times> 'w state) option" where
  "TemplateExecuteStringStd fuel E t m st =
     (case TemplateExecuteStd fuel E t m (st\<lparr>out := []\<rparr>) of
        None \<Rightarrow> None
      | Some (RetPanic p, st') \<Rightarrow> Some (Panic p, st'\<lparr>out := out st\<rparr>)
      | Some (Ret nn err, st') \<Rightarrow> Some (Ok (out st'), st'\<lparr>out := out st\<rparr>))"

text \<open>
  \<open>Template.Validate\<close>.  The loop over the map that sets \<open>funcExists\<close> looks for the key
  \<open>funcCall.Name\<close> with a non-nil value of kind \<open>Func\<close>.
\<close>

fun ValidateLoop ::
  "nat \<Rightarrow> 'a golib_scheme \<Rightarrow> (string \<rightharpoonup> val) \<Rightarrow> string list \<Rightarrow> error option option" where
  "ValidateLoop fuel L m [] = Some None"
| "ValidateLoop fuel L m (tag # rest) =
     (if isFunctionCall tag then
        (case parseFunctionCall fuel L tag of
           None \<Rightarrow> None
         | Some (Inl e) \<Rightarrow> Some (Some (InvalidFunctionCall tag e))
         | Some (Inr funcCall) \<Rightarrow>
             (case m (Name funcCall) of
                Some (VFunc fnType fn) \<Rightarrow> ValidateLoop fuel L m rest
              | _ \<Rightarrow> Some (Some (UnresolvedFunction (Name funcCall) tag))))
      else if isExpression tag then ValidateLoop fuel L m rest
      else
        (case m tag of
           None \<Rightarrow> Some (Some (UnresolvedTag tag))
         | Some v \<Rightarrow> ValidateLoop fuel L m rest))"

definition TemplateValidate ::
  "nat \<Rightarrow> 'a golib_scheme \<Rightarrow> Template \<Rightarrow> nat option \<Rightarrow> ('w, 'b) state_scheme \<Rightarrow> error option option" where
  "TemplateValidate fuel L t m st =
     (case m of
        None \<Rightarrow> (if length (tags t) > 0 then Some (Some (UnresolvedTagNilMap (hd (tags t))))
                 else Some None)
      | Some ma \<Rightarrow> ValidateLoop fuel L (heap st ma) (tags t))"

text \<open>\<open>bytes.Index\<close>: the index of the first occurrence of \<open>sep\<close>, or \<open>-1\<close>.\<close>

fun Index :: "string \<Rightarrow> string \<Rightarrow> int" where
  "Index [] sep = (if sep = [] then 0 else - 1)"
| "Index (c # cs) sep =
     (if prefix sep (c # cs) then 0
      else (let r = Index cs sep in if r < 0 then - 1 else r + 1))"

lemma Index_le: "Index s sep \<le> int (length s)"
  by (induction s) (auto simp: Let_def)

text \<open>
  The loop of \<open>Reset\<close>.  \<open>Reset\<close> panics on an empty \<open>startTag\<close> or \<open>endTag\<close> before it
  reaches the loop; the loop repeats that test of \<open>startTag\<close>, which makes every step
  shorten \<open>s\<close>.
\<close>

function ResetLoop ::
  "string \<Rightarrow> string \<Rightarrow> string \<Rightarrow> string \<Rightarrow> string list \<Rightarrow> string list
     \<Rightarrow> error + string list \<times> string list" where
  "ResetLoop tmpl s a b txts tgs =
     (let n = Index s a in
      if a = [] \<or> n < 0 then Inr (txts @ [s], tgs)
      else
        (let txts1 = txts @ [take (nat n) s];
             s1 = drop (nat n + length a) s;
             n1 = Index s1 b in
         if n1 < 0 then Inl (CannotFindEndTag b tmpl s1)
         else ResetLoop tmpl (drop (nat n1 + length b) s1) a b txts1 (tgs @ [take (nat n1) s1])))"
  by pat_completeness auto
termination
proof (relation "measure (\<lambda>(tmpl, s, a, b, txts, tgs). length s)")
  fix s a b :: string and n n1 :: int and s1 :: string
  assume n: "n = Index s a" and "\<not> (a = [] \<or> n < 0)"
    and s1: "s1 = drop (nat n + length a) s"
  then have a: "a \<noteq> []" and "0 \<le> n" by auto
  have "s \<noteq> []" using a \<open>0 \<le> n\<close> n by (cases s) auto
  then have "length s1 < length s" using a s1 by (cases a) auto
  then show "\<And>tmpl txts txts1 tgs x.
      ((tmpl, drop (nat n1 + length b) s1, a, b, txts1, tgs @ [x]), tmpl, s, a, b, txts, tgs)
        \<in> measure (\<lambda>(tmpl, s, a, b, txts, tgs). length s)"
    by simp
qed simp

declare ResetLoop.simps [simp del]

definition Reset :: "Template \<Rightarrow> string \<Rightarrow> string \<Rightarrow> string \<Rightarrow> Template res" where
  "Reset t tmpl a b =
     (if length a = 0 then Panic ''startTag cannot be empty''
      else if length b = 0 then Panic ''endTag cannot be empty''
      else if Index tmpl a < 0
        then Ok \<lparr>template = tmpl, startTag = a, endTag = b, texts = [], tags = []\<rparr>
      else
        (case ResetLoop tmpl tmpl a b [] [] of
           Inl e \<Rightarrow> Err e
         | Inr (txts', tgs') \<Rightarrow>
             Ok \<lparr>template = tmpl, startTag = a, endTag = b, texts = txts', tags = tgs'\<rparr>))"

definition NewTemplate :: "string \<Rightarrow> string \<Rightarrow> string \<Rightarrow> Template res" where
  "NewTemplate tmpl a b =
     Reset \<lparr>template = [], startTag = [], endTag = [], texts = [], tags = []\<rparr> tmpl a b"

text \<open>\<open>New\<close> panics with the error of \<open>NewTemplate\<close>.\<close>

definition New :: "string \<Rightarrow> string \<Rightarrow> string \<Rightarrow> Template res" where
  "New tmpl a b =
     (case NewTemplate tmpl a b of Err e \<Rightarrow> Panic ''cannot find end tag'' | r \<Rightarrow> r)"

section \<open>One-shot rendering (template.go)\<close>

text \<open>
  The loop of the function \<open>Execute\<close> has no bound when both tags are empty, so it takes
  fuel of its own: \<open>k\<close> is the number of iterations that are still allowed.
\<close>

primrec ExecuteLoop ::
  "nat \<Rightarrow> nat \<Rightarrow> ('w, 'a) env_scheme \<Rightarrow> string \<Rightarrow> string \<Rightarrow> string \<Rightarrow> nat option \<Rightarrow> int \<Rightarrow> 'w state
     \<Rightarrow> (ret \<times> 'w state) option" where
  "ExecuteLoop 0 = (\<lambda>fuel E s a b m nn st. None)"
| "ExecuteLoop (Suc k) = (\<lambda>fuel E s a b m nn st.
     (let n = Index s a in
      if n < 0 then Some (Ret (nn + int (length s)) None, Write s st)
      else
        (let st1 = Write (take (nat n) s) st;
             nn1 = nn + n;
             s1 = drop (nat n + length a) s;
             n1 = Index s1 b in
         if n1 < 0
         then Some (Ret (nn1 + int (length a) + int (length s1)) None, Write s1 (Write a st1))
         else
           (let tag = take (nat n1) s1 in
            case processTag fuel E tag m st1 of
              None \<Rightarrow> None
            | Some (RetPanic p, st2) \<Rightarrow> Some (RetPanic p, st2)
            | Some (Ret ni err, st2) \<Rightarrow>
                (case err of
                   Some e \<Rightarrow>
                     if isFunctionCall tag \<or> \<not> isVariableNotFound e
                     then Some (Ret (nn1 + ni) (Some e), st2)
                     else ExecuteLoop k fuel E (drop (nat n1 + length b) s1) a b m (nn1 + ni) st2
                 | None \<Rightarrow>
                     ExecuteLoop k fuel E (drop (nat n1 + length b) s1) a b m (nn1 + ni) st2)))))"

definition Execute ::
  "nat \<Rightarrow> ('w, 'a) env_scheme \<Rightarrow> string \<Rightarrow> string \<Rightarrow> string \<Rightarrow> nat option \<Rightarrow> 'w state
     \<Rightarrow> (ret \<times> 'w state) option" where
  "Execute fuel E tmpl a b m st = ExecuteLoop fuel fuel E tmpl a b m 0 st"

primrec ExecuteStdLoop ::
  "nat \<Rightarrow> nat \<Rightarrow> ('w, 'a) env_scheme \<Rightarrow> string \<Rightarrow> string \<Rightarrow> string \<Rightarrow> nat option \<Rightarrow> int \<Rightarrow> 'w state
     \<Rightarrow> (ret \<times> 'w state) option" where
  "ExecuteStdLoop 0 = (\<lambda>fuel E s a b m nn st. None)"
| "ExecuteStdLoop (Suc k) = (\<lambda>fuel E s a b m nn st.
     (let n = Index s a in
      if n < 0 then Some (Ret (nn + int (length s)) None, Write s st)
      else
        (let st1 = Write (take (nat n) s) st;
             nn1 = nn + n;
             s1 = drop (nat n + length a) s;
             n1 = Index s1 b in
         if n1 < 0
         then Some (Ret (nn1 + int (length a) + int (length s1)) None, Write s1 (Write a st1))
         else
           (let tag = take (nat n1) s1 in
            case processTagStd fuel E tag a b m st1 of
              None \<Rightarrow> None
            | Some (RetPanic p, st2) \<Rightarrow> Some (RetPanic p, st2)
            | Some (Ret ni err, st2) \<Rightarrow>
                (case err of
                   Some e \<Rightarrow> Some (Ret (nn1 + ni) (Some e), st2)
                 | None \<Rightarrow>
                     ExecuteStdLoop k fuel E (drop (nat n1 + length b) s1) a b m (nn1 + ni) st2)))))"

definition ExecuteStd ::
  "nat \<Rightarrow> ('w, 'a) env_scheme \<Rightarrow> string \<Rightarrow> string \<Rightarrow> string \<Rightarrow> nat option \<Rightarrow> 'w state
     \<Rightarrow> (ret \<times> 'w state) option" where
  "ExecuteStd fuel E tmpl a b m st = ExecuteStdLoop fuel fuel E tmpl a b m 0 st"

definition ExecuteString ::
  "nat \<Rightarrow> ('w, 'a) env_scheme \<Rightarrow> string \<Rightarrow> string \<Rightarrow> string \<Rightarrow> nat option \<Rightarrow> 'w state
     \<Rightarrow> (string res \<times> 'w state) option" where
  "ExecuteString fuel E tmpl a b m st =
     (case Execute fuel E tmpl a b m (st\<lparr>out := []\<rparr>) of
        None \<Rightarrow> None
      | Some (RetPanic p, st') \<Rightarrow> Some (Panic p, st'\<lparr>out := out st\<rparr>)
      | Some (Ret nn err, st') \<Rightarrow> Some (Ok (out st'), st'\<lparr>out := out st\<rparr>))"

definition ExecuteStringStd ::
  "nat \<Rightarrow> ('w, 'a) env_scheme \<Rightarrow> string \<Rightarrow> string \<Rightarrow> string \<Rightarrow> nat option \<Rightarrow> 'w state
     \<Rightarrow> (string res \<times> 'w state) option" where
  "ExecuteStringStd fuel E tmpl a b m st =
     (case ExecuteStd fuel E tmpl a b m (st\<lparr>out := []\<rparr>) of
        None \<Rightarrow> None
      | Some (RetPanic p, st') \<Rightarrow> Some (Panic p, st'\<lparr>out := out st\<rparr>)
      | Some (Ret nn err, st') \<Rightarrow> Some (Ok (out st'), st'\<lparr>out := out st\<rparr>))"

section \<open>Eval (eval.go)\<close>

text \<open>The type parameter \<open>T\<close> of \<open>Eval\<close>, up to its kind.\<close>

datatype evaltype = TInt ikind | TFloat fkind | TString | TBool

definition isSigned :: "ikind \<Rightarrow> bool" where
  "isSigned k = (k \<in> set [KInt, KInt8, KInt16, KInt32, KInt64])"

fun bitsOf :: "ikind \<Rightarrow> nat" where
  "bitsOf KInt8 = 8" | "bitsOf KUint8 = 8"
| "bitsOf KInt16 = 16" | "bitsOf KUint16 = 16"
| "bitsOf KInt32 = 32" | "bitsOf KUint32 = 32"
| "bitsOf _ = 64"

text \<open>The conversion of an integer to an integer type: the low bits, read in that type.\<close>

definition wrapTo :: "ikind \<Rightarrow> int \<Rightarrow> int" where
  "wrapTo k i =
     (if isSigned k then (i + 2 ^ (bitsOf k - 1)) mod 2 ^ bitsOf k - 2 ^ (bitsOf k - 1)
      else i mod 2 ^ bitsOf k)"

definition convertToType :: "'a golib_scheme \<Rightarrow> evaltype \<Rightarrow> val \<Rightarrow> val res" where
  "convertToType L T val =
     (case (T, val) of
        (TInt k, VInt k' i) \<Rightarrow>
          (if k = k' then Ok val
           else if isSigned k then Ok (VInt k (wrapTo k (wrapTo KInt64 i)))
           else Ok (VInt k (wrapTo k i)))
      | (TInt k, VFloat k' r) \<Rightarrow>
          (if isSigned k then Ok (VInt k (wrapTo k (wrapTo KInt64 (goInt r))))
           else Ok (VInt k (wrapTo k (goInt r))))
      | (TInt k, VStr v) \<Rightarrow>
          (if isSigned k then
             (case Atoi v of None \<Rightarrow> Err (CannotConvert v) | Some i \<Rightarrow> Ok (VInt k (wrapTo k i)))
           else Err (CannotConvert v))
      | (TInt k, VBool v) \<Rightarrow>
          (if isSigned k then Ok (VInt k (if v then 1 else 0)) else Err (CannotConvert ''bool''))
      | (TInt k, VNil) \<Rightarrow>
          (if isSigned k then Err (CannotConvert ''<nil>'')
           else Panic ''reflect: call of reflect.Value.Type on zero Value'')
      | (TInt k, v) \<Rightarrow> Err (CannotConvert (Sprintv L v))
      | (TFloat k, VInt k' i) \<Rightarrow> Ok (VFloat k (of_int i))
      | (TFloat k, VFloat k' r) \<Rightarrow> (if k = k' then Ok val else Ok (VFloat k r))
      | (TFloat k, VStr v) \<Rightarrow>
          (case ParseFloat L v of None \<Rightarrow> Err (CannotConvert v) | Some f \<Rightarrow> Ok (VFloat k f))
      | (TFloat k, VBool v) \<Rightarrow> Ok (VFloat k (if v then 1 else 0))
      | (TFloat k, v) \<Rightarrow> Err (CannotConvert (Sprintv L v))
      | (TString, v) \<Rightarrow> Ok (VStr (toString L v))
      | (TBool, v) \<Rightarrow> Ok (VBool (toBool L v)))"

definition Eval ::
  "nat \<Rightarrow> ('w, 'a) env_scheme \<Rightarrow> evaltype \<Rightarrow> string \<Rightarrow> nat option \<Rightarrow> 'w state
     \<Rightarrow> (val res \<times> 'w state) option" where
  "Eval fuel E T expression m st =
     (if isFunctionCall expression then
        (case parseFunctionCall fuel E expression of
           None \<Rightarrow> None
         | Some (Inl e) \<Rightarrow> Some (Err e, st)
         | Some (Inr fnCall) \<Rightarrow>
             (case execute fuel E m m fnCall st of
                None \<Rightarrow> None
              | Some (Err e, st') \<Rightarrow> Some (Err e, st')
              | Some (Panic p, st') \<Rightarrow> Some (Panic p, st')
              | Some (Ok result, st') \<Rightarrow> Some (convertToType E T result, st')))
      else if isExpression expression then
        (case evalExpression fuel E expression m st of
           None \<Rightarrow> None
         | Some (Err e, st') \<Rightarrow> Some (Err e, st')
         | Some (Panic p, st') \<Rightarrow> Some (Panic p, st')
         | Some (Ok result, st') \<Rightarrow> Some (convertToType E T result, st'))
      else
        (case lookup st m expression of
           Some val \<Rightarrow> Some (convertToType E T val, st)
         | None \<Rightarrow> Some (Err (VariableNotFound expression), st)))"

section \<open>Concrete inputs\<close>


definition noEnv :: "unit env" where
  "noEnv = \<lparr>ParseFloat = (\<lambda>s. None), FormatV = (\<lambda>v. []), UnicodeName = (\<lambda>s. False),
            Call = (\<lambda>fn args w. (NoResult, w)),
            CallTag = (\<lambda>fn tag w. (TagReturned [] 0 None, w))\<rparr>"

definition emptyState :: "unit state" where
  "emptyState = \<lparr>world = (), heap = (\<lambda>a. Map.empty), nextAddr = 0, exprCache = Map.empty, out = []\<rparr>"

text \<open>A state whose map at address 0 binds \<open>a\<close>, \<open>b\<close> and \<open>c\<close> to numbers.\<close>

definition abcState :: "unit state" where
  "abcState = \<lparr>world = (),
      heap = (\<lambda>a. if a = 0 then [''a'' \<mapsto> VInt KInt 2, ''b'' \<mapsto> VFloat KFloat64 (1 / 2),
                                  ''c'' \<mapsto> VInt KUint8 4] else Map.empty),
      nextAddr = 1, exprCache = Map.empty, out = []\<rparr>"

text \<open>
  An environment whose world counts the calls of bound functions.  Function 2 is a
  \<open>func(string) string\<close> that appends an exclamation mark; every other function returns
  the number of its arguments as a decimal string; the legacy callback writes nothing and
  returns an error.
\<close>

definition testCall :: "nat \<Rightarrow> val list \<Rightarrow> nat \<Rightarrow> outcome \<times> nat" where
  "testCall fn args w =
     (if fn = 2
      then (case args of [VStr s] \<Rightarrow> OneResult (VStr (s @ ''!'')) | _ \<Rightarrow> Panicked ''bad argument'')
      else OneResult (VStr (showNat (length args))),
      Suc w)"

definition countEnv :: "nat env" where
  "countEnv = \<lparr>ParseFloat = (\<lambda>s. None), FormatV = (\<lambda>v. []), UnicodeName = (\<lambda>s. False),
               Call = testCall,
               CallTag = (\<lambda>fn tag w. (TagReturned [] 0 (Some (UserError ''callback failed'')), Suc w))\<rparr>"

definition funBindings :: "string \<rightharpoonup> val" where
  "funBindings =
     [''f'' \<mapsto> VFunc (FOther 2 False) 0, ''rhs'' \<mapsto> VFunc (FOther 0 False) 1,
      ''shout'' \<mapsto> VFunc FStrToStr 2, ''legacy'' \<mapsto> VFunc FTagFunc 3,
      ''name'' \<mapsto> VStr ''World'']"

definition funState :: "nat state" where
  "funState = \<lparr>world = 0, heap = (\<lambda>a. if a = 0 then funBindings else Map.empty),
                nextAddr = 1, exprCache = Map.empty, out = []\<rparr>"

section \<open>Invariants\<close>

text \<open>
  The expression cache is only written by \<open>evalExpression\<close>, which stores the postfix
  form of the expression it has just parsed.  \<open>cacheOK\<close> says that every entry is of that
  kind; it holds of the empty cache the process starts with.
\<close>

definition cacheOK :: "('w, 'b) state_scheme \<Rightarrow> bool" where
  "cacheOK st =
     (\<forall>expression postfix. exprCache st expression = Some postfix \<longrightarrow>
        (\<exists>tokens. tokenize expression = Inr tokens \<and> toPostfix tokens = Inr postfix))"

text \<open>The tokens \<open>toPostfix\<close> passes to the output as they come.\<close>

definition isOperand :: "token \<Rightarrow> bool" where
  "isOperand t = (ttyp t \<in> set [tokenNumber, tokenString, tokenIdentifier, tokenFunctionCall])"

text \<open>
  \<open>sameStore\<close>: the maps, the allocator and the writer of two states are the same.
  \<open>execFrame\<close>: a function of the type of \<open>execute\<close> leaves them so.
\<close>

definition sameStore :: "'w state \<Rightarrow> 'w state \<Rightarrow> bool" where
  "sameStore st st' = (heap st' = heap st \<and> nextAddr st' = nextAddr st \<and> out st' = out st)"

definition execFrame :: "'w exec \<Rightarrow> bool" where
  "execFrame exec =
     (\<forall>funcs data fc st r st'. exec funcs data fc st = Some (r, st') \<longrightarrow> sameStore st st')"

text \<open>
  \<open>keepsMaps st st'\<close>: every map that is allocated in \<open>st\<close> has the same content in
  \<open>st'\<close>; maps may have been added.
\<close>

definition keepsMaps :: "'w state \<Rightarrow> 'w state \<Rightarrow> bool" where
  "keepsMaps st st' =
     (nextAddr st \<le> nextAddr st' \<and> list_all (\<lambda>a. heap st' a = heap st a) [0..<nextAddr st])"

text \<open>Two compiled templates, as \<open>NewTemplate\<close> builds them.\<close>

definition sampleTemplate :: Template where
  "sampleTemplate =
     \<lparr>template = ''{{name}}: {{1+2}} {{g(1)}} {{missing}}'', startTag = ''{{'', endTag = ''}}'',
      texts = [[], '': '', '' '', '' '', []], tags = [''name'', ''1+2'', ''g(1)'', ''missing'']\<rparr>"

definition sumTemplate :: Template where
  "sumTemplate =
     \<lparr>template = ''{{1+2}}'', startTag = ''{{'', endTag = ''}}'', texts = [[], []], tags = [''1+2'']\<rparr>"

definition missingTemplate :: Template where
  "missingTemplate =
     \<lparr>template = ''{{missing + 1}}!'', startTag = ''{{'', endTag = ''}}'',
      texts = [[], ''!''], tags = [''missing + 1'']\<rparr>"

section \<open>Properties\<close>

subsection \<open>The power operator\<close>

lemma powLoop_done: "n \<le> i \<Longrightarrow> powLoop i n a r = r"
  by (subst powLoop.simps) simp

lemma powLoop_power: "i \<le> n \<Longrightarrow> powLoop i n a r = r * a ^ nat (n - i)"
proof (induction i n a r rule: powLoop.induct)
  case (1 i n a result)
  show ?case
  proof (cases "i < n")
    case True
    then have "nat (n - i) = Suc (nat (n - (i + 1)))" by simp
    moreover have "powLoop i n a result = powLoop (i + 1) n a (result * a)"
      using True by (subst powLoop.simps) simp
    ultimately show ?thesis using 1 True by simp
  next
    case False
    with 1 have "i = n" by simp
    then show ?thesis by (simp add: powLoop_done)
  qed
qed

lemma pow_power: "pow a b = a ^ nat (goInt b)"
proof (cases "0 \<le> goInt b")
  case True
  then show ?thesis by (simp add: pow_def powLoop_power)
next
  case False
  then show ?thesis by (simp add: pow_def powLoop_done)
qed


lemma goInt_range: "- (2 ^ 63) \<le> goInt x \<and> goInt x < 2 ^ 63"
  by (simp add: goInt_def)



subsection \<open>Evaluation of an expression through the cache\<close>

lemma evalExpression_postfix:
  assumes "cacheOK st" and "\<not> isFunctionCall e"
    and "tokenize e = Inr toks" and "toPostfix toks = Inr p"
  shows "evalExpression fuel E e m st
           = evaluatePostfix fuel E p m (st\<lparr>exprCache := (exprCache st)(e \<mapsto> p)\<rparr>)"
proof (cases "exprCache st e")
  case None
  with assms show ?thesis
    by (simp add: evalExpression_def evalExpressionWith_def evaluatePostfix_def)
next
  case (Some q)
  with assms(1) obtain tokens where "tokenize e = Inr tokens" and "toPostfix tokens = Inr q"
    unfolding cacheOK_def by blast
  with assms(3,4) have "q = p" by simp
  with Some have "(exprCache st)(e \<mapsto> p) = exprCache st" by (auto simp: fun_upd_idem_iff)
  with Some \<open>q = p\<close> assms(2) show ?thesis
    by (simp add: evalExpression_def evalExpressionWith_def evaluatePostfix_def)
qed

lemma lookup_exprCache_update [simp]:
  "lookup (st\<lparr>exprCache := x\<rparr>) m k = lookup st m k"
  by (simp add: lookup_def split: option.split)

lemma cacheOK_empty: "exprCache st = Map.empty \<Longrightarrow> cacheOK st"
  by (simp add: cacheOK_def)

lemma toPostfixLoop_operand:
  "isOperand t \<Longrightarrow> toPostfixLoop (t # ts) output stack = toPostfixLoop ts (output @ [t]) stack"
  by (cases "ttyp t") (simp_all add: isOperand_def toPostfixLoop.simps(2))

lemma toPostfixLoop_structural:
  "toPostfixLoop (Token tokenOperator v # ts) output stack
     = (case popOperators v stack output of
          (stack', output') \<Rightarrow> toPostfixLoop ts output' (Token tokenOperator v # stack'))"
  "toPostfixLoop (Token tokenLeftParen v # ts) output stack
     = toPostfixLoop ts output (Token tokenLeftParen v # stack)"
  "toPostfixLoop (Token tokenRightParen v # ts) output stack
     = (case popToLeftParen stack output of
          (stack', output') \<Rightarrow>
            if stack' = [] then Inl MismatchedParentheses
            else toPostfixLoop ts output' (tl stack'))"
  by (simp_all add: toPostfixLoop.simps(2))

lemma popAll_operand: "isOperand t \<Longrightarrow> popAll (t # stack) output = popAll stack (output @ [t])"
  by (auto simp: isOperand_def)

lemma popOperators_operand: "isOperand t \<Longrightarrow> popOperators v (t # stack) output = (t # stack, output)"
  by (auto simp: isOperand_def)

lemmas toPostfix_steps = toPostfix_def toPostfixLoop_operand toPostfixLoop_structural

lemma toPostfix_binary:
  "toPostfix [Token tokenNumber x, Token tokenOperator op, Token tokenNumber y]
     = Inr [Token tokenNumber x, Token tokenNumber y, Token tokenOperator op]"
  by (simp add: toPostfix_steps isOperand_def)

lemma toPostfix_two_operators:
  assumes "isOperand x" and "isOperand y" and "isOperand z"
  shows "toPostfix [x, Token tokenOperator op1, y, Token tokenOperator op2, z]
           = Inr (if operators op1 \<ge> operators op2
                  then [x, y, Token tokenOperator op1, z, Token tokenOperator op2]
                  else [x, y, z, Token tokenOperator op2, Token tokenOperator op1])"
  using assms by (simp add: toPostfix_steps)

lemma toPostfix_parenthesised:
  assumes "isOperand x" and "isOperand y" and "isOperand z"
  shows "toPostfix [Token tokenLeftParen ''('', x, Token tokenOperator op1, y,
                    Token tokenRightParen '')'', Token tokenOperator op2, z]
           = Inr [x, y, Token tokenOperator op1, z, Token tokenOperator op2]"
  using assms by (simp add: toPostfix_steps)

lemma evaluatePostfixLoop_numeric_identifier:
  assumes "lookup st data x = Some v" and "isNumeric v"
  shows "evaluatePostfixLoop E pfc exec data (Token tokenIdentifier x # ts) stack st
           = evaluatePostfixLoop E pfc exec data ts (v # stack) st"
  using assms by (cases v) (simp_all add: evaluatePostfixLoop.simps(2))

lemma evaluatePostfixLoop_operator:
  "evaluatePostfixLoop E pfc exec data (Token tokenOperator op # ts) (b # a # stack) st
     = (case applyOperator E op a b of
          Ok result \<Rightarrow> evaluatePostfixLoop E pfc exec data ts (result # stack) st
        | Err e \<Rightarrow> Some (Err e, st)
        | Panic p \<Rightarrow> Some (Panic p, st))"
  by (simp add: evaluatePostfixLoop.simps(2) split: res.split)

lemma evaluatePostfixLoop_number:
  "Atoi x = Some i \<Longrightarrow> CHR ''.'' \<notin> set x \<Longrightarrow>
   evaluatePostfixLoop E pfc exec data (Token tokenNumber x # ts) stack st
     = evaluatePostfixLoop E pfc exec data ts (VInt KInt i # stack) st"
  by (simp add: evaluatePostfixLoop.simps(2))

lemma applyOperator_numeric:
  assumes "isNumeric a" and "isNumeric b"
  shows "applyOperator L ''+'' a b = Ok (VFloat KFloat64 (toFloat64 L a + toFloat64 L b))"
    and "applyOperator L ''*'' a b = Ok (VFloat KFloat64 (toFloat64 L a * toFloat64 L b))"
    and "applyOperator L ''**'' a b = Ok (VFloat KFloat64 (pow (toFloat64 L a) (toFloat64 L b)))"
  using assms by (simp_all add: applyOperator_def)

lemma operators_table:
  "operators ''||'' = 1" "operators ''&&'' = 2" "operators ''=='' = 3" "operators ''!='' = 3"
  "operators ''>'' = 4" "operators ''>='' = 4" "operators ''<'' = 4" "operators ''<='' = 4"
  "operators ''+'' = 5" "operators ''-'' = 5" "operators ''*'' = 6" "operators ''/'' = 6"
  "operators ''%'' = 6" "operators ''**'' = 7"
  by (simp_all add: operators_def)

lemma Atoi_0_1: "Atoi ''0'' = Some 0" "Atoi ''1'' = Some 1"
  by code_simp+

subsection \<open>Division and modulo by zero\<close>

lemma classify_1_div_0: "\<not> isFunctionCall ''1/0''" "isExpression ''1/0''"
  "\<not> isFunctionCall ''1%0''" "isExpression ''1%0''"
  by code_simp+

lemma tokenize_1_div_0:
  "tokenize ''1/0'' = Inr [Token tokenNumber ''1'', Token tokenOperator ''/'', Token tokenNumber ''0'']"
  "tokenize ''1%0'' = Inr [Token tokenNumber ''1'', Token tokenOperator ''%'', Token tokenNumber ''0'']"
  by code_simp+

text \<open>
  C4.  \<open>/\<close> and \<open>%\<close> on numeric operands with a zero right operand return the
  division-by-zero error (with the message of the operator), and so do
  \<open>Eval[float64]("1/0")\<close> and \<open>Eval[int]("1%0")\<close>, for any bindings and any fuel.
\<close>

theorem division_by_zero:
  assumes "cacheOK st"
  shows "(\<forall>a b. isNumeric a \<and> isNumeric b \<and> toFloat64 E b = 0 \<longrightarrow>
            applyOperator E ''/'' a b = Err (DivisionByZero ''division by zero'')
          \<and> applyOperator E ''%'' a b = Err (DivisionByZero ''modulo by zero''))
       \<and> (\<exists>st'. Eval fuel E (TFloat KFloat64) ''1/0'' m st
                   = Some (Err (DivisionByZero ''division by zero''), st'))
       \<and> (\<exists>st'. Eval fuel E (TInt KInt) ''1%0'' m st
                   = Some (Err (DivisionByZero ''modulo by zero''), st'))"
proof -
  have ops: "\<forall>a b. isNumeric a \<and> isNumeric b \<and> toFloat64 E b = 0 \<longrightarrow>
            applyOperator E ''/'' a b = Err (DivisionByZero ''division by zero'')
          \<and> applyOperator E ''%'' a b = Err (DivisionByZero ''modulo by zero'')"
    by (simp add: applyOperator_def)
  have "\<exists>st'. evalExpression fuel E ''1/0'' m st = Some (Err (DivisionByZero ''division by zero''), st')"
    by (simp add: evalExpression_postfix [OF assms classify_1_div_0(1) tokenize_1_div_0(1) toPostfix_binary]
          evaluatePostfix_def evaluatePostfixWith_def evaluatePostfixLoop_number
          evaluatePostfixLoop_operator Atoi_0_1 applyOperator_def)
  then have div: "\<exists>st'. Eval fuel E (TFloat KFloat64) ''1/0'' m st
                   = Some (Err (DivisionByZero ''division by zero''), st')"
    by (auto simp: Eval_def classify_1_div_0)
  have "\<exists>st'. evalExpression fuel E ''1%0'' m st = Some (Err (DivisionByZero ''modulo by zero''), st')"
    by (simp add: evalExpression_postfix [OF assms classify_1_div_0(3) tokenize_1_div_0(2) toPostfix_binary]
          evaluatePostfix_def evaluatePostfixWith_def evaluatePostfixLoop_number
          evaluatePostfixLoop_operator Atoi_0_1 applyOperator_def)
  then have md: "\<exists>st'. Eval fuel E (TInt KInt) ''1%0'' m st
                   = Some (Err (DivisionByZero ''modulo by zero''), st')"
    by (auto simp: Eval_def classify_1_div_0)
  from ops div md show ?thesis by blast
qed

theorem division_by_zero_witness:
  "cacheOK emptyState
   \<and> applyOperator noEnv ''/'' (VFloat KFloat64 (7 / 2)) (VInt KUint16 0)
       = Err (DivisionByZero ''division by zero'')
   \<and> applyOperator noEnv ''%'' (VInt KInt 7) (VFloat KFloat32 0)
       = Err (DivisionByZero ''modulo by zero'')
   \<and> (\<exists>st'. Eval 0 noEnv (TFloat KFloat64) ''1/0'' None emptyState
               = Some (Err (DivisionByZero ''division by zero''), st'))
   \<and> (\<exists>st'. Eval 0 noEnv (TInt KInt) ''1%0'' None emptyState
               = Some (Err (DivisionByZero ''modulo by zero''), st'))"
proof -
  have c: "cacheOK emptyState" by (simp add: cacheOK_def emptyState_def)
  from division_by_zero [OF c, of noEnv 0 None] show ?thesis using c by simp
qed

subsection \<open>Operator precedence\<close>

lemma classify_abc:
  "\<not> isFunctionCall ''a + b * c''" "isExpression ''a + b * c''"
  "\<not> isFunctionCall ''(a+b)*c''" "isExpression ''(a+b)*c''"
  "\<not> isFunctionCall ''a ** b ** c''" "isExpression ''a ** b ** c''"
  by code_simp+

lemma tokenize_abc:
  "tokenize ''a + b * c'' = Inr [Token tokenIdentifier ''a'', Token tokenOperator ''+'',
     Token tokenIdentifier ''b'', Token tokenOperator ''*'', Token tokenIdentifier ''c'']"
  "tokenize ''(a+b)*c'' = Inr [Token tokenLeftParen ''('', Token tokenIdentifier ''a'',
     Token tokenOperator ''+'', Token tokenIdentifier ''b'', Token tokenRightParen '')'',
     Token tokenOperator ''*'', Token tokenIdentifier ''c'']"
  "tokenize ''a ** b ** c'' = Inr [Token tokenIdentifier ''a'', Token tokenOperator ''**'',
     Token tokenIdentifier ''b'', Token tokenOperator ''**'', Token tokenIdentifier ''c'']"
  by code_simp+

text \<open>
  C3.  With \<open>a\<close>, \<open>b\<close> and \<open>c\<close> bound to numbers, \<open>a + b * c\<close> evaluates to \<open>a + (b*c)\<close>,
  \<open>(a+b)*c\<close> to \<open>(a+b)*c\<close>, and \<open>a ** b ** c\<close> to \<open>(a ** b) ** c\<close>.  In general, of two
  operators between three operands the first is applied first unless the second has a
  strictly higher precedence in the table, so operators of equal precedence associate to
  the left.
\<close>

theorem precedence_left_associative:
  assumes cache: "cacheOK st"
    and a: "lookup st m ''a'' = Some va" and b: "lookup st m ''b'' = Some vb"
    and c: "lookup st m ''c'' = Some vc"
    and num: "isNumeric va" "isNumeric vb" "isNumeric vc"
  shows "(\<exists>st'. Eval fuel E (TFloat KFloat64) ''a + b * c'' m st
            = Some (Ok (VFloat KFloat64 (toFloat64 E va + toFloat64 E vb * toFloat64 E vc)), st'))
       \<and> (\<exists>st'. Eval fuel E (TFloat KFloat64) ''(a+b)*c'' m st
            = Some (Ok (VFloat KFloat64 ((toFloat64 E va + toFloat64 E vb) * toFloat64 E vc)), st'))
       \<and> (\<exists>st'. Eval fuel E (TFloat KFloat64) ''a ** b ** c'' m st
            = Some (Ok (VFloat KFloat64 (pow (pow (toFloat64 E va) (toFloat64 E vb)) (toFloat64 E vc))), st'))
       \<and> (\<forall>x y z op1 op2. isOperand x \<and> isOperand y \<and> isOperand z \<longrightarrow>
            toPostfix [x, Token tokenOperator op1, y, Token tokenOperator op2, z]
              = Inr (if operators op1 \<ge> operators op2
                     then [x, y, Token tokenOperator op1, z, Token tokenOperator op2]
                     else [x, y, z, Token tokenOperator op2, Token tokenOperator op1]))
       \<and> map operators [''||'', ''&&'', ''=='', ''!='', ''>'', ''>='', ''<'', ''<='', ''+'', ''-'', ''*'',
            ''/'', ''%'', ''**''] = [1, 2, 3, 3, 4, 4, 4, 4, 5, 5, 6, 6, 6, 7]"
proof -
  let ?A = "toFloat64 E va" and ?B = "toFloat64 E vb" and ?C = "toFloat64 E vc"
  note steps = evaluatePostfix_def evaluatePostfixWith_def evaluatePostfixLoop_operator
    evaluatePostfixLoop_numeric_identifier applyOperator_numeric a b c num
  have post1: "toPostfix [Token tokenIdentifier ''a'', Token tokenOperator ''+'',
     Token tokenIdentifier ''b'', Token tokenOperator ''*'', Token tokenIdentifier ''c'']
     = Inr [Token tokenIdentifier ''a'', Token tokenIdentifier ''b'', Token tokenIdentifier ''c'',
            Token tokenOperator ''*'', Token tokenOperator ''+'']"
    by (simp add: toPostfix_two_operators isOperand_def operators_table)
  have post3: "toPostfix [Token tokenIdentifier ''a'', Token tokenOperator ''**'',
     Token tokenIdentifier ''b'', Token tokenOperator ''**'', Token tokenIdentifier ''c'']
     = Inr [Token tokenIdentifier ''a'', Token tokenIdentifier ''b'', Token tokenOperator ''**'',
            Token tokenIdentifier ''c'', Token tokenOperator ''**'']"
    by (simp add: toPostfix_two_operators isOperand_def operators_table)
  have post2: "toPostfix [Token tokenLeftParen ''('', Token tokenIdentifier ''a'',
     Token tokenOperator ''+'', Token tokenIdentifier ''b'', Token tokenRightParen '')'',
     Token tokenOperator ''*'', Token tokenIdentifier ''c'']
     = Inr [Token tokenIdentifier ''a'', Token tokenIdentifier ''b'', Token tokenOperator ''+'',
            Token tokenIdentifier ''c'', Token tokenOperator ''*'']"
    by (simp add: toPostfix_parenthesised isOperand_def)
  have e1: "\<exists>st'. evalExpression fuel E ''a + b * c'' m st
      = Some (Ok (VFloat KFloat64 (?A + ?B * ?C)), st')"
    by (simp add: evalExpression_postfix [OF cache classify_abc(1) tokenize_abc(1) post1] steps)
  have e2: "\<exists>st'. evalExpression fuel E ''(a+b)*c'' m st
      = Some (Ok (VFloat KFloat64 ((?A + ?B) * ?C)), st')"
    by (simp add: evalExpression_postfix [OF cache classify_abc(3) tokenize_abc(2) post2] steps)
  have e3: "\<exists>st'. evalExpression fuel E ''a ** b ** c'' m st
      = Some (Ok (VFloat KFloat64 (pow (pow ?A ?B) ?C)), st')"
    by (simp add: evalExpression_postfix [OF cache classify_abc(5) tokenize_abc(3) post3] steps)
  have conv: "convertToType E (TFloat KFloat64) (VFloat KFloat64 r) = Ok (VFloat KFloat64 r)" for r
    by (simp add: convertToType_def)
  from e1 have r1: "\<exists>st'. Eval fuel E (TFloat KFloat64) ''a + b * c'' m st
            = Some (Ok (VFloat KFloat64 (?A + ?B * ?C)), st')"
    by (auto simp: Eval_def classify_abc conv)
  from e2 have r2: "\<exists>st'. Eval fuel E (TFloat KFloat64) ''(a+b)*c'' m st
            = Some (Ok (VFloat KFloat64 ((?A + ?B) * ?C)), st')"
    by (auto simp: Eval_def classify_abc conv)
  from e3 have r3: "\<exists>st'. Eval fuel E (TFloat KFloat64) ''a ** b ** c'' m st
            = Some (Ok (VFloat KFloat64 (pow (pow ?A ?B) ?C)), st')"
    by (auto simp: Eval_def classify_abc conv)
  have tab: "map operators [''||'', ''&&'', ''=='', ''!='', ''>'', ''>='', ''<'', ''<='', ''+'', ''-'', ''*'',
            ''/'', ''%'', ''**''] = [1, 2, 3, 3, 4, 4, 4, 4, 5, 5, 6, 6, 6, 7]"
    by (simp add: operators_table)
  from r1 r2 r3 tab toPostfix_two_operators show ?thesis by blast
qed

theorem precedence_left_associative_witness:
  "cacheOK abcState
   \<and> lookup abcState (Some 0) ''a'' = Some (VInt KInt 2) \<and> isNumeric (VInt KInt 2)
   \<and> lookup abcState (Some 0) ''b'' = Some (VFloat KFloat64 (1 / 2)) \<and> isNumeric (VFloat KFloat64 (1 / 2))
   \<and> lookup abcState (Some 0) ''c'' = Some (VInt KUint8 4) \<and> isNumeric (VInt KUint8 4)
   \<and> (\<exists>st'. Eval 0 noEnv (TFloat KFloat64) ''a + b * c'' (Some 0) abcState
               = Some (Ok (VFloat KFloat64 4), st'))
   \<and> (\<exists>st'. Eval 0 noEnv (TFloat KFloat64) ''(a+b)*c'' (Some 0) abcState
               = Some (Ok (VFloat KFloat64 10), st'))
   \<and> (\<exists>st'. Eval 0 noEnv (TFloat KFloat64) ''a ** b ** c'' (Some 0) abcState
               = Some (Ok (VFloat KFloat64 1), st'))
   \<and> toPostfix [Token tokenNumber ''8'', Token tokenOperator ''-'', Token tokenNumber ''3'',
                Token tokenOperator ''-'', Token tokenNumber ''2'']
       = Inr [Token tokenNumber ''8'', Token tokenNumber ''3'', Token tokenOperator ''-'',
              Token tokenNumber ''2'', Token tokenOperator ''-'']"
proof -
  have c: "cacheOK abcState" by (simp add: cacheOK_def abcState_def)
  have l: "lookup abcState (Some 0) ''a'' = Some (VInt KInt 2)"
    "lookup abcState (Some 0) ''b'' = Some (VFloat KFloat64 (1 / 2))"
    "lookup abcState (Some 0) ''c'' = Some (VInt KUint8 4)"
    by (simp_all add: lookup_def abcState_def)
  have n: "isNumeric (VInt KInt 2)" "isNumeric (VFloat KFloat64 (1 / 2))" "isNumeric (VInt KUint8 4)"
    by simp_all
  have o: "isOperand (Token tokenNumber ''8'') \<and> isOperand (Token tokenNumber ''3'')
      \<and> isOperand (Token tokenNumber ''2'')"
    by (simp add: isOperand_def)
  have p: "pow (pow 2 (1 / 2)) 4 = 1" by (simp add: pow_power goInt_def truncInt_def)
  from precedence_left_associative [OF c l n, of 0 noEnv] o p c l show ?thesis
    by (simp add: operators_table)
qed

subsection \<open>Unfolding one unit of fuel\<close>

lemma parseFunctionCall_0: "parseFunctionCall 0 L s = None"
  by (simp add: parseFunctionCall.simps)

lemma parseFunctionCall_Suc:
  "parseFunctionCall (Suc n) L s = parseFunctionCallBody L (parseFunctionCall n L) s"
  by (simp add: parseFunctionCall.simps)

lemma execute_0: "execute 0 E funcs data fc st = None"
  by (simp add: execute.simps)

lemma execute_Suc:
  "execute (Suc n) E funcs data fc st
     = executeBody E (parseFunctionCall n E) (execute n E) funcs data fc st"
  by (simp add: execute.simps)

subsection \<open>What evaluation leaves unchanged\<close>

lemma execFrameD:
  "execFrame exec \<Longrightarrow> exec funcs data fc st = Some (r, st')
     \<Longrightarrow> heap st' = heap st \<and> nextAddr st' = nextAddr st \<and> out st' = out st"
  unfolding execFrame_def sameStore_def by blast

lemma evaluatePostfixLoop_frame:
  assumes "execFrame exec"
  shows "evaluatePostfixLoop E pfc exec data ts stack st = Some (r, st') \<Longrightarrow> sameStore st st'"
proof (induction ts arbitrary: stack st)
  case Nil
  then show ?case by (auto simp: sameStore_def split: if_splits)
next
  case (Cons t ts)
  note IH = Cons.IH [unfolded sameStore_def]
  show ?case
  proof (cases "ttyp t")
    case tokenOperator
    with Cons.prems show ?thesis
      by (auto simp: evaluatePostfixLoop.simps(2) Let_def sameStore_def
               split: if_splits res.splits dest!: IH)
  next
    case tokenNumber
    with Cons.prems show ?thesis
      by (auto simp: evaluatePostfixLoop.simps(2) sameStore_def
               split: if_splits option.splits dest!: IH)
  next
    case tokenString
    with Cons.prems show ?thesis
      by (auto simp: evaluatePostfixLoop.simps(2) sameStore_def dest!: IH)
  next
    case tokenIdentifier
    with Cons.prems show ?thesis
      by (auto simp: evaluatePostfixLoop.simps(2) sameStore_def
               split: option.splits if_splits val.splits functype.splits list.splits
                      prod.splits outcome.splits
               dest!: IH)
  next
    case tokenLeftParen
    with Cons.prems show ?thesis
      by (auto simp: evaluatePostfixLoop.simps(2) sameStore_def dest!: IH)
  next
    case tokenRightParen
    with Cons.prems show ?thesis
      by (auto simp: evaluatePostfixLoop.simps(2) sameStore_def dest!: IH)
  next
    case tokenFunctionCall
    with Cons.prems show ?thesis
      by (auto simp: evaluatePostfixLoop.simps(2) sameStore_def
               split: option.splits sum.splits res.splits prod.splits
               dest!: IH execFrameD [OF assms])
  qed
qed

lemma evaluatePostfixLoop_frameD:
  "execFrame exec \<Longrightarrow> evaluatePostfixLoop E pfc exec data ts stack st = Some (r, st')
     \<Longrightarrow> heap st' = heap st \<and> nextAddr st' = nextAddr st \<and> out st' = out st"
  using evaluatePostfixLoop_frame [of exec E pfc data ts stack st r st'] by (simp add: sameStore_def)

lemma evalExpressionWith_frame:
  assumes "execFrame exec"
  shows "evalExpressionWith E pfc exec e data st = Some (r, st') \<Longrightarrow> sameStore st st'"
  by (auto simp: evalExpressionWith_def evaluatePostfixWith_def sameStore_def
           split: if_splits option.splits sum.splits
           dest!: execFrameD [OF assms] evaluatePostfixLoop_frameD [OF assms])

lemma evalExpressionWith_frameD:
  "execFrame exec \<Longrightarrow> evalExpressionWith E pfc exec e data st = Some (r, st')
     \<Longrightarrow> heap st' = heap st \<and> nextAddr st' = nextAddr st \<and> out st' = out st"
  using evalExpressionWith_frame [of exec E pfc e data st r st'] by (simp add: sameStore_def)

lemma evalArgs_frame:
  assumes "execFrame exec"
  shows "evalArgs E pfc exec funcs data as acc st = Some (r, st') \<Longrightarrow> sameStore st st'"
proof (induction as arbitrary: acc st)
  case Nil
  then show ?case by (simp add: sameStore_def)
next
  case (Cons a as)
  have IH: "evalArgs E pfc exec funcs data as acc1 st1 = Some (r, st')
      \<Longrightarrow> heap st' = heap st1 \<and> nextAddr st' = nextAddr st1 \<and> out st' = out st1" for acc1 st1
    using Cons.IH [of acc1 st1] by (simp add: sameStore_def)
  show ?case
  proof (cases a)
    case (AString s)
    show ?thesis
    proof (cases "data \<noteq> None \<and> lookup st data s = None \<and> isLikelyVariable s")
      case True
      with Cons.prems AString show ?thesis by (simp add: evalArgs.simps(2) sameStore_def)
    next
      case False
      then have "\<exists>v. evalArgs E pfc exec funcs data (a # as) acc st
          = evalArgs E pfc exec funcs data as (acc @ [v]) st"
        using AString
        by (cases "lookup st data s"; cases data) (auto simp: evalArgs.simps(2) lookup_def)
      then obtain v where "evalArgs E pfc exec funcs data (a # as) acc st
          = evalArgs E pfc exec funcs data as (acc @ [v]) st" by blast
      with Cons.prems IH [of "acc @ [v]" st] show ?thesis by (simp add: sameStore_def)
    qed
  next
    case (ACall fc)
    with Cons.prems show ?thesis
      by (auto simp: evalArgs.simps(2) sameStore_def split: option.splits res.splits prod.splits
               dest!: IH execFrameD [OF assms])
  next
    case (AExpr e)
    with Cons.prems show ?thesis
      by (auto simp: evalArgs.simps(2) sameStore_def split: option.splits res.splits prod.splits
               dest!: IH evalExpressionWith_frameD [OF assms])
  qed (use Cons.prems in \<open>auto simp: evalArgs.simps(2) sameStore_def dest!: IH\<close>)
qed

lemma evalArgs_frameD:
  "execFrame exec \<Longrightarrow> evalArgs E pfc exec funcs data as acc st = Some (r, st')
     \<Longrightarrow> heap st' = heap st \<and> nextAddr st' = nextAddr st \<and> out st' = out st"
  using evalArgs_frame [of exec E pfc funcs data as acc st r st'] by (simp add: sameStore_def)

lemma executeBody_frame:
  assumes "execFrame exec"
  shows "execFrame (executeBody E pfc exec)"
  unfolding execFrame_def
  by (auto simp: executeBody_def sameStore_def
           split: option.splits val.splits res.splits prod.splits if_splits outcome.splits second.splits
           dest!: evalArgs_frameD [OF assms])

lemma execute_frame: "execFrame (execute n E)"
proof (induction n)
  case 0
  show ?case by (simp add: execFrame_def execute_0)
next
  case (Suc n)
  then show ?case using executeBody_frame [of "execute n E" E "parseFunctionCall n E"]
    by (simp add: execFrame_def execute_Suc)
qed

subsection \<open>Empty arguments\<close>

lemma parse_skips_empty:
  "parseFunctionCall (Suc n) L ''f(1,,2)'' = Some (Inr (FunctionCall ''f'' [AInt 1, AInt 2]))"
  "parseFunctionCall (Suc n) L ''f(,1,2)'' = Some (Inr (FunctionCall ''f'' [AInt 1, AInt 2]))"
  "parseFunctionCall (Suc n) L ''f(1,2,)'' = Some (Inr (FunctionCall ''f'' [AInt 1, AInt 2]))"
  "parseFunctionCall (Suc n) L ''f(1, ,  , 2)'' = Some (Inr (FunctionCall ''f'' [AInt 1, AInt 2]))"
  by code_simp+

lemma classify_f_1_2: "isFunctionCall ''f(1,,2)''"
  by code_simp

lemma parseArgsLoop_empty_argument:
  "TrimSpace currentArg = [] \<Longrightarrow>
   parseArgsLoop pa ('','' # rs) args currentArg False False 0 False
     = parseArgsLoop pa rs args [] False False 0 False"
  by (simp add: parseArgsLoop.simps(2))

lemma parseArgs_last_empty:
  "parseArgsLoop pa (runes s) [] [] False False 0 False
      = Some (Inr (args, currentArg, False, False, 0))
   \<Longrightarrow> TrimSpace currentArg = [] \<Longrightarrow> parseArgs pa s = Some (Inr args)"
  by (simp add: parseArgs_def)

lemma evalArgs_literals:
  "evalArgs E pfc exec funcs data [AInt i, AInt j] [] st = Some (Ok [VInt KInt i, VInt KInt j], st)"
  by (simp add: evalArgs.simps(2))

text \<open>
  C10.  An argument that is empty after trimming is skipped: at a separating comma and
  at the end of the argument string nothing is appended to the arguments when the
  current argument is blank.  So \<open>f(1,,2)\<close>, \<open>f(,1,2)\<close>, \<open>f(1,2,)\<close> and \<open>f(1, ,  , 2)\<close> all
  parse as the call of \<open>f\<close> with the two arguments 1 and 2, the arity check of a
  two-parameter function accepts it, and the function is called with those two values.
\<close>

theorem empty_arguments_skipped:
  assumes f: "heap st ma ''f'' = Some (VFunc (FOther 2 False) fn)"
    and call: "Call E fn [VInt KInt 1, VInt KInt 2] (world st) = (OneResult (VStr r), w')"
  shows "parseFunctionCall (Suc n) E ''f(1,,2)'' = Some (Inr (FunctionCall ''f'' [AInt 1, AInt 2]))
       \<and> parseFunctionCall (Suc n) E ''f(,1,2)'' = Some (Inr (FunctionCall ''f'' [AInt 1, AInt 2]))
       \<and> parseFunctionCall (Suc n) E ''f(1,2,)'' = Some (Inr (FunctionCall ''f'' [AInt 1, AInt 2]))
       \<and> parseFunctionCall (Suc n) E ''f(1, ,  , 2)'' = Some (Inr (FunctionCall ''f'' [AInt 1, AInt 2]))
       \<and> (\<forall>pa rs args currentArg. TrimSpace currentArg = [] \<longrightarrow>
            parseArgsLoop pa ('','' # rs) args currentArg False False 0 False
              = parseArgsLoop pa rs args [] False False 0 False)
       \<and> (\<forall>pa s args currentArg.
            parseArgsLoop pa (runes s) [] [] False False 0 False
              = Some (Inr (args, currentArg, False, False, 0)) \<and> TrimSpace currentArg = []
            \<longrightarrow> parseArgs pa s = Some (Inr args))
       \<and> isValidArgCount (FOther 2 False) (length (Args (FunctionCall ''f'' [AInt 1, AInt 2])))
       \<and> (\<exists>st'. processTag (Suc n) E ''f(1,,2)'' (Some ma) st = Some (Ret (int (length r)) None, st')
                 \<and> out st' = out st @ r \<and> world st' = w')"
proof -
  have render: "\<exists>st'. processTag (Suc n) E ''f(1,,2)'' (Some ma) st = Some (Ret (int (length r)) None, st')
                 \<and> out st' = out st @ r \<and> world st' = w'"
    using f call
    by (simp add: processTag_def classify_f_1_2 parse_skips_empty newTempFuncs_def funcsOf_def
          isValidArgCount_def execute_Suc executeBody_def lookup_def evalArgs_literals writeResult_def Write_def)
  have valid: "isValidArgCount (FOther 2 False) (length (Args (FunctionCall ''f'' [AInt 1, AInt 2])))"
    by (simp add: isValidArgCount_def)
  from render valid parse_skips_empty [of n E] parseArgsLoop_empty_argument parseArgs_last_empty
  show ?thesis by blast
qed


lemma funState_facts:
  "heap funState 0 = funBindings" "world funState = 0" "out funState = []" "nextAddr funState = 1"
  "exprCache funState = Map.empty" "cacheOK funState"
  by (simp_all add: funState_def cacheOK_def)

lemma showNat_2: "showNat (Suc (Suc 0)) = ''2''"
  by code_simp

theorem empty_arguments_skipped_witness:
  "heap funState 0 ''f'' = Some (VFunc (FOther 2 False) 0)
   \<and> Call countEnv 0 [VInt KInt 1, VInt KInt 2] (world funState) = (OneResult (VStr ''2''), 1)
   \<and> parseFunctionCall 1 countEnv ''f(1,,2)'' = Some (Inr (FunctionCall ''f'' [AInt 1, AInt 2]))
   \<and> (\<exists>st'. processTag 1 countEnv ''f(1,,2)'' (Some 0) funState = Some (Ret 1 None, st')
             \<and> out st' = ''2'' \<and> world st' = 1)"
proof -
  have f: "heap funState 0 ''f'' = Some (VFunc (FOther 2 False) 0)"
    by (simp add: funState_facts funBindings_def)
  have c: "Call countEnv 0 [VInt KInt 1, VInt KInt 2] (world funState) = (OneResult (VStr ''2''), 1)"
    by (simp add: countEnv_def testCall_def funState_facts showNat_2)
  from empty_arguments_skipped [OF f c, of 0] f c show ?thesis
    by (simp add: funState_facts)
qed

subsection \<open>Identifiers in a postfix expression\<close>

text \<open>
  C6.  An identifier token that is not bound fails with \<open>VariableNotFound\<close> when it is
  variable-shaped and is pushed as its own text otherwise; one that is bound to a
  \<open>func(string) string\<close> while a string is on top of the stack replaces that string by
  the function's result; in every other case the bound value is pushed.
\<close>

theorem identifier_resolution:
  "(lookup st data x = None \<and> isLikelyVariable x \<longrightarrow>
      evaluatePostfixLoop E pfc exec data (Token tokenIdentifier x # ts) stack st
        = Some (Err (VariableNotFound x), st))
   \<and> (lookup st data x = None \<and> \<not> isLikelyVariable x \<longrightarrow>
      evaluatePostfixLoop E pfc exec data (Token tokenIdentifier x # ts) stack st
        = evaluatePostfixLoop E pfc exec data ts (VStr x # stack) st)
   \<and> (lookup st data x = Some (VFunc FStrToStr f)
        \<and> Call E f [VStr s] (world st) = (OneResult (VStr r), w') \<longrightarrow>
      evaluatePostfixLoop E pfc exec data (Token tokenIdentifier x # ts) (VStr s # rest) st
        = evaluatePostfixLoop E pfc exec data ts (VStr r # rest) (st\<lparr>world := w'\<rparr>))
   \<and> (lookup st data x = Some v
        \<and> ((\<forall>g. v \<noteq> VFunc FStrToStr g) \<or> stack = [] \<or> (\<forall>s'. hd stack \<noteq> VStr s')) \<longrightarrow>
      evaluatePostfixLoop E pfc exec data (Token tokenIdentifier x # ts) stack st
        = evaluatePostfixLoop E pfc exec data ts (v # stack) st)
   \<and> (isLikelyVariable x \<longleftrightarrow>
        \<not> (length x \<ge> 2 \<and> ((hd x = CHR 0x22 \<and> last x = CHR 0x22) \<or> (hd x = CHR 0x27 \<and> last x = CHR 0x27)))
        \<and> \<not> (length x > 0 \<and> isDigit (hd x))
        \<and> x \<noteq> ''true'' \<and> x \<noteq> ''false''
        \<and> set x \<inter> set [CHR 0x20, CHR 0x09, CHR 0x0A, CHR 0x0D, CHR ''+'', CHR ''-'', CHR ''*'',
              CHR ''/'', CHR ''='', CHR ''<'', CHR ''>'', CHR ''!'', CHR 0x26, CHR ''|'', CHR ''%''] = {})"
proof -
  have ex: "list_ex (\<lambda>c. c \<in> A) x \<longleftrightarrow> set x \<inter> A \<noteq> {}" for A :: "char set"
    by (auto simp: list_ex_iff)
  have chain: "(if a then False else if b then False else if c \<or> c' then False
                else if d then False else True) = (\<not> a \<and> \<not> b \<and> \<not> c \<and> \<not> c' \<and> \<not> d)"
    for a b c c' d by simp
  have push: "lookup st data x = Some v \<Longrightarrow>
      (\<forall>g. v \<noteq> VFunc FStrToStr g) \<or> stack = [] \<or> (\<forall>s'. hd stack \<noteq> VStr s') \<Longrightarrow>
      evaluatePostfixLoop E pfc exec data (Token tokenIdentifier x # ts) stack st
        = evaluatePostfixLoop E pfc exec data ts (v # stack) st"
    by (cases v; cases stack)
       (auto simp: evaluatePostfixLoop.simps(2) split: functype.splits val.splits list.splits)
  have shape: "isLikelyVariable x \<longleftrightarrow>
        \<not> (length x \<ge> 2 \<and> ((hd x = CHR 0x22 \<and> last x = CHR 0x22) \<or> (hd x = CHR 0x27 \<and> last x = CHR 0x27)))
        \<and> \<not> (length x > 0 \<and> isDigit (hd x))
        \<and> x \<noteq> ''true'' \<and> x \<noteq> ''false''
        \<and> set x \<inter> set [CHR 0x20, CHR 0x09, CHR 0x0A, CHR 0x0D, CHR ''+'', CHR ''-'', CHR ''*'',
              CHR ''/'', CHR ''='', CHR ''<'', CHR ''>'', CHR ''!'', CHR 0x26, CHR ''|'', CHR ''%''] = {}"
    by (simp only: isLikelyVariable_def ex chain not_not)
  have absent: "lookup st data x = None \<Longrightarrow>
      evaluatePostfixLoop E pfc exec data (Token tokenIdentifier x # ts) stack st
        = (if isLikelyVariable x then Some (Err (VariableNotFound x), st)
           else evaluatePostfixLoop E pfc exec data ts (VStr x # stack) st)"
    by (simp add: evaluatePostfixLoop.simps(2))
  have inplace: "lookup st data x = Some (VFunc FStrToStr f) \<Longrightarrow>
      Call E f [VStr s] (world st) = (OneResult (VStr r), w') \<Longrightarrow>
      evaluatePostfixLoop E pfc exec data (Token tokenIdentifier x # ts) (VStr s # rest) st
        = evaluatePostfixLoop E pfc exec data ts (VStr r # rest) (st\<lparr>world := w'\<rparr>)"
    by (simp add: evaluatePostfixLoop.simps(2))
  show ?thesis
  proof (intro conjI impI)
    assume "lookup st data x = None \<and> isLikelyVariable x"
    then show "evaluatePostfixLoop E pfc exec data (Token tokenIdentifier x # ts) stack st
        = Some (Err (VariableNotFound x), st)"
      using absent by simp
  next
    assume "lookup st data x = None \<and> \<not> isLikelyVariable x"
    then show "evaluatePostfixLoop E pfc exec data (Token tokenIdentifier x # ts) stack st
        = evaluatePostfixLoop E pfc exec data ts (VStr x # stack) st"
      using absent by simp
  next
    assume "lookup st data x = Some (VFunc FStrToStr f)
        \<and> Call E f [VStr s] (world st) = (OneResult (VStr r), w')"
    then show "evaluatePostfixLoop E pfc exec data (Token tokenIdentifier x # ts) (VStr s # rest) st
        = evaluatePostfixLoop E pfc exec data ts (VStr r # rest) (st\<lparr>world := w'\<rparr>)"
      using inplace by blast
  next
    assume "lookup st data x = Some v
        \<and> ((\<forall>g. v \<noteq> VFunc FStrToStr g) \<or> stack = [] \<or> (\<forall>s'. hd stack \<noteq> VStr s'))"
    then show "evaluatePostfixLoop E pfc exec data (Token tokenIdentifier x # ts) stack st
        = evaluatePostfixLoop E pfc exec data ts (v # stack) st"
      using push by blast
  next
    show "isLikelyVariable x \<longleftrightarrow>
        \<not> (length x \<ge> 2 \<and> ((hd x = CHR 0x22 \<and> last x = CHR 0x22) \<or> (hd x = CHR 0x27 \<and> last x = CHR 0x27)))
        \<and> \<not> (length x > 0 \<and> isDigit (hd x))
        \<and> x \<noteq> ''true'' \<and> x \<noteq> ''false''
        \<and> set x \<inter> set [CHR 0x20, CHR 0x09, CHR 0x0A, CHR 0x0D, CHR ''+'', CHR ''-'', CHR ''*'',
              CHR ''/'', CHR ''='', CHR ''<'', CHR ''>'', CHR ''!'', CHR 0x26, CHR ''|'', CHR ''%''] = {}"
      by (rule shape)
  qed
qed


lemma unquote_hi: "unquote [CHR 0x27, CHR ''h'', CHR ''i'', CHR 0x27] = ''hi''"
  by code_simp

lemma likely_missing: "isLikelyVariable ''missing''" "\<not> isLikelyVariable ''true''"
  by code_simp+

theorem identifier_resolution_witness:
  "lookup funState (Some 0) ''missing'' = None \<and> isLikelyVariable ''missing''
   \<and> evaluatePostfix 0 countEnv [Token tokenIdentifier ''missing''] (Some 0) funState
       = Some (Err (VariableNotFound ''missing''), funState)
   \<and> lookup funState (Some 0) ''true'' = None \<and> \<not> isLikelyVariable ''true''
   \<and> evaluatePostfix 0 countEnv [Token tokenIdentifier ''true''] (Some 0) funState
       = Some (Ok (VStr ''true''), funState)
   \<and> lookup funState (Some 0) ''shout'' = Some (VFunc FStrToStr 2)
   \<and> Call countEnv 2 [VStr ''hi''] (world funState) = (OneResult (VStr ''hi!''), 1)
   \<and> evaluatePostfix 0 countEnv
         [Token tokenString [CHR 0x27, CHR ''h'', CHR ''i'', CHR 0x27], Token tokenIdentifier ''shout'']
         (Some 0) funState
       = Some (Ok (VStr ''hi!''), funState\<lparr>world := 1\<rparr>)
   \<and> lookup funState (Some 0) ''name'' = Some (VStr ''World'')
   \<and> evaluatePostfix 0 countEnv [Token tokenIdentifier ''name''] (Some 0) funState
       = Some (Ok (VStr ''World''), funState)
   \<and> evaluatePostfix 0 countEnv [Token tokenIdentifier ''shout''] (Some 0) funState
       = Some (Ok (VFunc FStrToStr 2), funState)"
proof -
  have l: "lookup funState (Some 0) ''missing'' = None" "lookup funState (Some 0) ''true'' = None"
    "lookup funState (Some 0) ''shout'' = Some (VFunc FStrToStr 2)"
    "lookup funState (Some 0) ''name'' = Some (VStr ''World'')"
    by (simp_all add: lookup_def funState_facts funBindings_def)
  have c: "Call countEnv 2 [VStr ''hi''] (world funState) = (OneResult (VStr ''hi!''), 1)"
    by (simp add: countEnv_def testCall_def funState_facts)
  note r = identifier_resolution [where E = countEnv and pfc = "parseFunctionCall 0 countEnv"
      and exec = "execute 0 countEnv" and st = funState and data = "Some 0" and ts = "[]"]
  from r [where x = "''missing''" and stack = "[]"]
       r [where x = "''true''" and stack = "[]"]
       r [where x = "''shout''" and f = 2 and s = "''hi''" and r = "''hi!''" and w' = 1 and rest = "[]"]
       r [where x = "''name''" and stack = "[]" and v = "VStr ''World''"]
       r [where x = "''shout''" and stack = "[]" and v = "VFunc FStrToStr 2"]
       l c likely_missing
  show ?thesis
    by (simp add: evaluatePostfix_def evaluatePostfixWith_def unquote_hi evaluatePostfixLoop.simps(2))
qed

subsection \<open>An expression that ends with a call\<close>

lemma classify_false_and_rhs: "isFunctionCall ''false && rhs()''"
  by code_simp

lemma parse_false_and_rhs:
  "parseFunctionCall (Suc n) L ''false && rhs()'' = Some (Inl (InvalidFunctionName ''false && rhs''))"
  by code_simp

text \<open>
  C5.  The text \<open>false && rhs()\<close> has a parenthesis after its first character and ends
  with one, so \<open>isFunctionCall\<close> takes it for a call of a function named
  \<open>false && rhs\<close>: \<open>Eval\<close> returns the error of \<open>parseFunctionCall\<close> and leaves the state
  as it was, so \<open>rhs\<close> is not invoked, whatever the bindings are.
\<close>

theorem false_and_rhs_not_evaluated:
  "Eval (Suc n) E TBool ''false && rhs()'' m st
     = Some (Err (InvalidFunctionName ''false && rhs''), st)"
  by (simp add: Eval_def classify_false_and_rhs parse_false_and_rhs)

theorem false_and_rhs_not_evaluated_witness:
  "lookup funState (Some 0) ''rhs'' = Some (VFunc (FOther 0 False) 1)
   \<and> Eval 1 countEnv TBool ''false && rhs()'' (Some 0) funState
       = Some (Err (InvalidFunctionName ''false && rhs''), funState)
   \<and> world funState = 0"
  using false_and_rhs_not_evaluated [of 0 countEnv "Some 0" funState]
  by (simp add: lookup_def funState_facts funBindings_def)

text \<open>
  The operator itself does not short-circuit: written so that it is classified as an
  expression, \<open>(false && rhs())\<close> calls \<open>rhs\<close> once and then applies \<open>&&\<close>.
\<close>

lemma classify_paren_false_and_rhs: "\<not> isFunctionCall ''(false && rhs())''"
  by code_simp

lemma tokenize_paren_false_and_rhs:
  "tokenize ''(false && rhs())'' = Inr [Token tokenLeftParen ''('', Token tokenIdentifier ''false'',
     Token tokenOperator ''&&'', Token tokenFunctionCall ''rhs()'', Token tokenRightParen '')'']"
  by code_simp

lemma parse_rhs: "parseFunctionCall (Suc n) L ''rhs()'' = Some (Inr (FunctionCall ''rhs'' []))"
  by code_simp

lemma parenthesised_and_calls_rhs_once:
  assumes "cacheOK st" and "lookup st m ''false'' = None"
    and "lookup st m ''rhs'' = Some (VFunc (FOther 0 False) fn)"
    and "Call E fn [] (world st) = (OneResult v, w')"
  shows "\<exists>st'. Eval (Suc n) E TBool ''(false && rhs())'' m st = Some (Ok (VBool False), st')
               \<and> world st' = w'"
proof -
  have post: "toPostfix [Token tokenLeftParen ''('', Token tokenIdentifier ''false'',
     Token tokenOperator ''&&'', Token tokenFunctionCall ''rhs()'', Token tokenRightParen '')'']
     = Inr [Token tokenIdentifier ''false'', Token tokenFunctionCall ''rhs()'', Token tokenOperator ''&&'']"
    by (simp add: toPostfix_steps isOperand_def)
  have ex: "isExpression ''(false && rhs())''" by code_simp
  have nl: "\<not> isLikelyVariable ''false''" by code_simp
  have "\<exists>st'. evalExpression (Suc n) E ''(false && rhs())'' m st = Some (Ok (VBool False), st')
               \<and> world st' = w'"
    using assms(2-4) nl
    by (simp add: evalExpression_postfix [OF assms(1) classify_paren_false_and_rhs
            tokenize_paren_false_and_rhs post]
          evaluatePostfix_def evaluatePostfixWith_def evaluatePostfixLoop.simps(2) parse_rhs
          execute_Suc executeBody_def applyOperator_def)
  then show ?thesis
    by (auto simp: Eval_def classify_paren_false_and_rhs ex convertToType_def)
qed

subsection \<open>Validation of a template\<close>

lemma ValidateLoop_Cons:
  "ValidateLoop fuel L m (p # rest) =
     (case ValidateLoop fuel L m [p] of Some None \<Rightarrow> ValidateLoop fuel L m rest | r \<Rightarrow> r)"
  by (simp split: option.split sum.split val.split)

lemma ValidateLoop_append:
  "list_all (\<lambda>p. ValidateLoop fuel L m [p] = Some None) pre
     \<Longrightarrow> ValidateLoop fuel L m (pre @ rest) = ValidateLoop fuel L m rest"
proof (induction pre)
  case Nil
  show ?case by simp
next
  case (Cons p pre)
  then have p: "ValidateLoop fuel L m [p] = Some None"
    and rest: "ValidateLoop fuel L m (pre @ rest) = ValidateLoop fuel L m rest"
    by simp_all
  have "ValidateLoop fuel L m ((p # pre) @ rest) = ValidateLoop fuel L m (pre @ rest)"
    using ValidateLoop_Cons [of fuel L m p "pre @ rest"] p by simp
  then show ?case using rest by simp
qed

lemma ValidateLoop_all:
  "(ValidateLoop fuel L m tgs = Some None)
     = list_all (\<lambda>p. ValidateLoop fuel L m [p] = Some None) tgs"
proof (induction tgs)
  case Nil
  show ?case by simp
next
  case (Cons p tgs)
  show ?case
    using Cons ValidateLoop_Cons [of fuel L m p tgs]
    by (cases "ValidateLoop fuel L m [p]") (auto split: option.splits)
qed

lemma ValidateLoop_single:
  "(ValidateLoop fuel L m [p] = Some None) =
     (if isFunctionCall p
      then (\<exists>fc fnType fn. parseFunctionCall fuel L p = Some (Inr fc)
                \<and> m (Name fc) = Some (VFunc fnType fn))
      else isExpression p \<or> m p \<noteq> None)"
  by (auto split: option.splits sum.splits val.splits)

text \<open>
  C7.  With a map, \<open>Validate\<close> goes through the tags in order and returns the error of the
  first one that does not pass: a plain tag that is absent from the map, a function-call
  tag whose name is not bound to a function (absent, or bound to something else), or a
  function-call tag that does not parse.  A tag passes exactly when it is a call that
  parses and whose name is bound to a function, or an expression, or a plain tag that is
  present; so a tag classified as an expression never fails against a map, and
  validation succeeds exactly when every tag passes.  With a nil map \<open>Validate\<close> fails on
  the first tag whatever its kind, and succeeds when the template has no tags; a template
  without tags validates against any map.
\<close>

theorem Validate_first_unresolved:
  "TemplateValidate fuel L t None st =
     (if tags t = [] then Some None else Some (Some (UnresolvedTagNilMap (hd (tags t)))))
   \<and> (tags t = [] \<longrightarrow> TemplateValidate fuel L t m st = Some None)
   \<and> (tags t = pre @ tag # rest
        \<and> list_all (\<lambda>p. ValidateLoop fuel L (heap st ma) [p] = Some None) pre \<longrightarrow>
      (\<not> isFunctionCall tag \<and> \<not> isExpression tag \<and> heap st ma tag = None \<longrightarrow>
         TemplateValidate fuel L t (Some ma) st = Some (Some (UnresolvedTag tag)))
      \<and> (isFunctionCall tag \<and> parseFunctionCall fuel L tag = Some (Inr fc)
           \<and> (\<forall>fnType fn. heap st ma (Name fc) \<noteq> Some (VFunc fnType fn)) \<longrightarrow>
         TemplateValidate fuel L t (Some ma) st = Some (Some (UnresolvedFunction (Name fc) tag)))
      \<and> (isFunctionCall tag \<and> parseFunctionCall fuel L tag = Some (Inl e) \<longrightarrow>
         TemplateValidate fuel L t (Some ma) st = Some (Some (InvalidFunctionCall tag e))))
   \<and> ((ValidateLoop fuel L (heap st ma) [tag] = Some None) =
        (if isFunctionCall tag
         then (\<exists>fc fnType fn. parseFunctionCall fuel L tag = Some (Inr fc)
                  \<and> heap st ma (Name fc) = Some (VFunc fnType fn))
         else isExpression tag \<or> heap st ma tag \<noteq> None))
   \<and> ((TemplateValidate fuel L t (Some ma) st = Some None) =
        list_all (\<lambda>p. ValidateLoop fuel L (heap st ma) [p] = Some None) (tags t))"
proof -
  have nil: "TemplateValidate fuel L t None st =
     (if tags t = [] then Some None else Some (Some (UnresolvedTagNilMap (hd (tags t)))))"
    by (simp add: TemplateValidate_def)
  have empty: "tags t = [] \<longrightarrow> TemplateValidate fuel L t m st = Some None"
    by (cases m) (simp_all add: TemplateValidate_def)
  have first: "TemplateValidate fuel L t (Some ma) st = ValidateLoop fuel L (heap st ma) (tag # rest)"
    if "tags t = pre @ tag # rest"
      and "list_all (\<lambda>p. ValidateLoop fuel L (heap st ma) [p] = Some None) pre"
    using that ValidateLoop_append [of fuel L "heap st ma" pre "tag # rest"]
    by (simp add: TemplateValidate_def)
  have all: "(TemplateValidate fuel L t (Some ma) st = Some None) =
        list_all (\<lambda>p. ValidateLoop fuel L (heap st ma) [p] = Some None) (tags t)"
    using ValidateLoop_all [of fuel L "heap st ma" "tags t"] by (simp add: TemplateValidate_def)
  show ?thesis
    apply (intro conjI impI)
    subgoal by (rule nil)
    subgoal using empty by simp
    subgoal using first by simp
    subgoal using first by (auto split: option.splits val.splits)
    subgoal using first by simp
    subgoal by (rule ValidateLoop_single)
    subgoal by (rule all)
    done
qed

lemma NewTemplate_sample:
  "NewTemplate ''{{name}}: {{1+2}} {{g(1)}} {{missing}}'' ''{{'' ''}}'' = Ok sampleTemplate"
  "NewTemplate ''{{1+2}}'' ''{{'' ''}}'' = Ok sumTemplate"
  by code_simp+

lemma classify_sample:
  "\<not> isFunctionCall ''name''" "\<not> isExpression ''name''"
  "\<not> isFunctionCall ''1+2''" "isExpression ''1+2''"
  "isFunctionCall ''g(1)''"
  "\<not> isFunctionCall ''missing''" "\<not> isExpression ''missing''"
  by code_simp+

lemma parse_g_1: "parseFunctionCall (Suc n) L ''g(1)'' = Some (Inr (FunctionCall ''g'' [AInt 1]))"
  by code_simp

theorem Validate_first_unresolved_witness:
  "TemplateValidate 1 countEnv sampleTemplate None funState
      = Some (Some (UnresolvedTagNilMap ''name''))
   \<and> tags sampleTemplate = [''name'', ''1+2''] @ ''g(1)'' # [''missing'']
   \<and> list_all (\<lambda>p. ValidateLoop 1 countEnv (heap funState 0) [p] = Some None) [''name'', ''1+2'']
   \<and> isFunctionCall ''g(1)''
   \<and> parseFunctionCall 1 countEnv ''g(1)'' = Some (Inr (FunctionCall ''g'' [AInt 1]))
   \<and> heap funState 0 ''g'' = None
   \<and> TemplateValidate 1 countEnv sampleTemplate (Some 0) funState
      = Some (Some (UnresolvedFunction ''g'' ''g(1)''))"
  using Validate_first_unresolved [where t = sampleTemplate and fuel = 1 and L = countEnv
      and st = funState and m = "Some 0" and pre = "[''name'', ''1+2'']" and tag = "''g(1)''"
      and rest = "[''missing'']" and ma = 0 and fc = "FunctionCall ''g'' [AInt 1]"]
  by (simp add: sampleTemplate_def funState_facts funBindings_def classify_sample parse_g_1)

text \<open>
  The template \<open>{{1+2}}\<close>, whose only tag is an expression, does not validate against a nil
  map.
\<close>

theorem Validate_expression_nil_map:
  "NewTemplate ''{{1+2}}'' ''{{'' ''}}'' = Ok sumTemplate
   \<and> \<not> isFunctionCall ''1+2'' \<and> isExpression ''1+2''
   \<and> TemplateValidate 1 noEnv sumTemplate None emptyState
       = Some (Some (UnresolvedTagNilMap ''1+2''))
   \<and> TemplateValidate 1 noEnv sumTemplate (Some 0) emptyState = Some None"
  by (simp add: NewTemplate_sample classify_sample TemplateValidate_def sumTemplate_def)

subsection \<open>A missing variable in an expression tag\<close>

lemma NewTemplate_missing: "NewTemplate ''{{missing + 1}}!'' ''{{'' ''}}'' = Ok missingTemplate"
  by code_simp

lemma classify_missing_plus_1: "\<not> isFunctionCall ''missing + 1''" "isExpression ''missing + 1''"
  by code_simp+

lemma tokenize_missing_plus_1:
  "tokenize ''missing + 1'' = Inr [Token tokenIdentifier ''missing'', Token tokenOperator ''+'',
     Token tokenNumber ''1'']"
  by code_simp

lemma toPostfix_missing_plus_1:
  "toPostfix [Token tokenIdentifier ''missing'', Token tokenOperator ''+'', Token tokenNumber ''1'']
     = Inr [Token tokenIdentifier ''missing'', Token tokenNumber ''1'', Token tokenOperator ''+'']"
  by (simp add: toPostfix_steps isOperand_def)

lemma Index_missing:
  "Index ''{{missing + 1}}!'' ''{{'' = 0" "Index ''missing + 1}}!'' ''}}'' = 11"
  "Index ''!'' ''{{'' = - 1"
  by code_simp+

lemma processTag_missing_plus_1:
  assumes "cacheOK st" and "lookup st m ''missing'' = None"
  shows "processTag fuel E ''missing + 1'' m st
           = Some (Ret 0 (Some (VariableNotFound ''missing'')),
                   st\<lparr>exprCache := (exprCache st)(''missing + 1'' \<mapsto>
                     [Token tokenIdentifier ''missing'', Token tokenNumber ''1'',
                      Token tokenOperator ''+''])\<rparr>)"
  using assms(2)
  by (simp add: processTag_def classify_missing_plus_1
        evalExpression_postfix [OF assms(1) classify_missing_plus_1(1) tokenize_missing_plus_1
          toPostfix_missing_plus_1]
        evaluatePostfix_def evaluatePostfixWith_def evaluatePostfixLoop.simps(2) likely_missing)

text \<open>
  C2.  Strict rendering does not abort on every failure of an expression tag.  The tag
  \<open>missing + 1\<close> is an expression, not a function call; when \<open>missing\<close> is not bound its
  evaluation fails with \<open>VariableNotFound\<close>, an error the render loops test for with
  \<open>errors.Is\<close> whatever the kind of the tag.  So \<open>Execute\<close> and \<open>Template.Execute\<close> go on:
  the template \<open>{{missing + 1}}!\<close> renders as \<open>!\<close> with no error.
\<close>

theorem strict_swallows_expression_miss:
  assumes "cacheOK st" and "lookup st m ''missing'' = None"
  shows "\<not> isFunctionCall ''missing + 1'' \<and> isExpression ''missing + 1''
       \<and> (\<exists>st'. processTag fuel E ''missing + 1'' m st
                   = Some (Ret 0 (Some (VariableNotFound ''missing'')), st') \<and> out st' = out st)
       \<and> (\<exists>st'. Execute (Suc (Suc k)) E ''{{missing + 1}}!'' ''{{'' ''}}'' m st
                   = Some (Ret 1 None, st') \<and> out st' = out st @ ''!'')
       \<and> (\<exists>st'. TemplateExecute fuel E missingTemplate m st
                   = Some (Ret 1 None, st') \<and> out st' = out st @ ''!'')"
proof -
  have tag: "\<exists>st'. processTag fuel E ''missing + 1'' m st
                   = Some (Ret 0 (Some (VariableNotFound ''missing'')), st') \<and> out st' = out st"
    by (simp add: processTag_missing_plus_1 [OF assms])
  have one: "\<exists>st'. Execute (Suc (Suc k)) E ''{{missing + 1}}!'' ''{{'' ''}}'' m st
                   = Some (Ret 1 None, st') \<and> out st' = out st @ ''!''"
    by (simp add: Execute_def Index_missing processTag_missing_plus_1 [OF assms] Let_def
          classify_missing_plus_1 Write_def)
  have compiled: "\<exists>st'. TemplateExecute fuel E missingTemplate m st
                   = Some (Ret 1 None, st') \<and> out st' = out st @ ''!''"
    by (simp add: TemplateExecute_def missingTemplate_def TemplateExecuteLoop.simps Let_def
          processTag_missing_plus_1 [OF assms] classify_missing_plus_1 Write_def)
  from tag one compiled classify_missing_plus_1 show ?thesis by blast
qed

theorem strict_swallows_expression_miss_witness:
  "cacheOK emptyState \<and> lookup emptyState None ''missing'' = None
   \<and> NewTemplate ''{{missing + 1}}!'' ''{{'' ''}}'' = Ok missingTemplate
   \<and> (\<exists>st'. Execute 2 noEnv ''{{missing + 1}}!'' ''{{'' ''}}'' None emptyState
               = Some (Ret 1 None, st') \<and> out st' = ''!'')
   \<and> (\<exists>st'. TemplateExecute 0 noEnv missingTemplate None emptyState
               = Some (Ret 1 None, st') \<and> out st' = ''!'')"
proof -
  have c: "cacheOK emptyState" by (simp add: cacheOK_def emptyState_def)
  have l: "lookup emptyState None ''missing'' = None" by (simp add: lookup_def)
  have o: "out emptyState = []" by (simp add: emptyState_def)
  from strict_swallows_expression_miss [OF c l, of 0 noEnv 0] c l o NewTemplate_missing
  show ?thesis by (simp add: numeral_2_eq_2)
qed

end
